theory Spec2Isabelle
  imports Complex_Main
begin

section \<open>Data model of the cooling-system controller\<close>

text \<open>
  The development follows \<^verbatim>\<open>CoolingSystemController\<close> of
  \<^verbatim>\<open>src/new_AI_UI_0314.py\<close>; where the earlier file
  \<^verbatim>\<open>src/new_AI_UI_0313_1.py\<close> differs in a function used below, that variant is
  embedded under the same name with the suffix \<open>_v0313\<close>.

  Python floats are read as real numbers: every comparison, \<open>min\<close>, \<open>max\<close> and
  arithmetic operation of the source is the exact one here. The one exception is the
  deadband test of the sea-water controller, where the rounding of \<open>prev_t5 + 0.05\<close> and
  \<open>prev_t5 - 0.05\<close> decides the branch when \<open>T5\<close> has moved by 0.05; there the sum
  and the difference are rounded as the source rounds them.
  Calls to \<^verbatim>\<open>logging\<close> only write to the log and are left out. The attribute
  \<^verbatim>\<open>running\<close> belongs to the thread loop and is left out as well.
\<close>

text \<open>The strings \<^verbatim>\<open>'up'\<close> and \<^verbatim>\<open>'down'\<close>; Python's \<^verbatim>\<open>None\<close> is \<open>None\<close>.\<close>

datatype direction = Up | Down

text \<open>
  The alarm message is one of four format strings with the measured value interpolated,
  or the empty string. Each constructor stands for one format string of
  \<^verbatim>\<open>check_alarm_conditions\<close> and carries the interpolated value.
\<close>

datatype alarm_text =
    Empty_text
  | T5_high_text real
  | T2_high_text real
  | DP1_low_text real
  | DP1_high_text real

text \<open>
  The attributes \<^verbatim>\<open>sw_base_freq\<close>, \<^verbatim>\<open>prev_t5\<close>, \<^verbatim>\<open>t5_direction\<close> and
  \<^verbatim>\<open>last_adjustment\<close> do not exist until the first call of
  \<^verbatim>\<open>adjust_sw_pump_frequency\<close> creates all four together
  (\<^verbatim>\<open>hasattr(self, 'sw_base_freq')\<close>).
\<close>

record sw_memory =
  sw_base_freq :: real
  prev_t5 :: real
  t5_direction :: "direction option"
  last_adjustment :: "direction option"

text \<open>One dictionary appended to \<^verbatim>\<open>data_log\<close>; the field is the key with \<open>dp_\<close> in front.\<close>

record data_point =
  dp_Time :: real
  dp_T1 :: real
  dp_T2 :: real
  dp_T4 :: real
  dp_T5 :: real
  dp_DP1 :: real
  dp_FW_FREQ :: real
  dp_SW_FREQ :: real
  dp_FW_COUNT :: int
  dp_SW_COUNT :: int
  dp_EFFICIENCY :: real
  dp_ENGINE_LOAD :: real
  dp_FW_FLOW :: real
  dp_SW_FLOW :: real

record controller =
  T1 :: real
  T2 :: real
  T4 :: real
  T5 :: real
  DP1 :: real
  fw_pump_freq :: real
  sw_pump_freq :: real
  fw_pump_count :: int
  sw_pump_count :: int
  m_FW :: real
  m_SW :: real
  heat_exchanger_efficiency :: real
  engine_load :: real
  alarm_active :: bool
  alarm_message :: alarm_text
  simulation_mode :: bool
  user_input_mode :: bool
  last_update_time :: real
  operating_hours :: real
  time_data :: "real list"
  t1_data :: "real list"
  t2_data :: "real list"
  t4_data :: "real list"
  t5_data :: "real list"
  dp1_data :: "real list"
  fw_freq_data :: "real list"
  sw_freq_data :: "real list"
  fw_count_data :: "int list"
  sw_count_data :: "int list"
  efficiency_data :: "real list"
  engine_load_data :: "real list"
  data_log :: "data_point list"
  sw_mem :: "sw_memory option"

text \<open>
  What a call reads from outside the object: the clock (\<^verbatim>\<open>time.time()\<close>, one field
  for each place that reads it) and the two draws of \<^verbatim>\<open>np.random.randn()\<close>.
\<close>

record environment =
  time_update :: real
  time_simulate :: real
  time_fw :: real
  time_sw :: real
  randn_t1 :: real
  randn_t4 :: real

section \<open>Flow model and thermal solver\<close>

definition update_flow_rates :: "controller \<Rightarrow> controller" where
  "update_flow_rates s =
    (let base_fw_flow = 1290;
         s1 = s\<lparr>m_FW := base_fw_flow * (fw_pump_freq s / 60) * real_of_int (fw_pump_count s)\<rparr>;
         base_sw_flow = 1500
     in s1\<lparr>m_SW := base_sw_flow * (sw_pump_freq s1 / 60) * real_of_int (sw_pump_count s1)\<rparr>)"

text \<open>
  \<^verbatim>\<open>calculate_t5\<close> computes the two heat-capacity rates once and then runs three
  blocks in sequence, each of which reads and assigns attributes: the heat-exchange
  equation for \<open>T5\<close>, the physical limits on \<open>T5\<close>, and the energy balance for \<open>T2\<close>.
  Each block is one function here, taking the rates it reads as arguments.
\<close>

definition heat_exchange_equation :: "real \<Rightarrow> real \<Rightarrow> real \<Rightarrow> controller \<Rightarrow> controller" where
  "heat_exchange_equation epsilon C_fw C_sw s =
    (if C_fw \<le> 0 \<or> C_sw \<le> 0 then s\<lparr>T5 := T4 s\<rparr>
     else let C_min = min C_fw C_sw
          in if C_min = C_fw
             then s\<lparr>T5 := T4 s - epsilon * (T4 s - T1 s)\<rparr>
             else s\<lparr>T5 := T4 s - (epsilon * C_sw * (T4 s - T1 s)) / C_fw\<rparr>)"

definition physical_limits :: "controller \<Rightarrow> controller" where
  "physical_limits s =
    (let s1 = s\<lparr>T5 := min (T4 s) (T5 s)\<rparr>
     in s1\<lparr>T5 := max (T1 s1) (T5 s1)\<rparr>)"

definition energy_balance :: "real \<Rightarrow> real \<Rightarrow> controller \<Rightarrow> controller" where
  "energy_balance C_fw C_sw s =
    (if C_sw > 0
     then let original_t2 = T1 s + (C_fw * (T4 s - T5 s)) / C_sw;
              s1 = s\<lparr>T2 := original_t2\<rparr>
          in if T2 s1 > T4 s1 then s1\<lparr>T2 := min (T4 s1) (T2 s1)\<rparr> else s1
     else s\<lparr>T2 := T1 s\<rparr>)"

definition calculate_t5 :: "controller \<Rightarrow> controller" where
  "calculate_t5 s =
    (let cp_fw = 4200;
         cp_sw = 4000;
         rho_fw = 1000;
         rho_sw = 1025;
         C_fw = m_FW s * rho_fw * cp_fw / 3600;
         C_sw = m_SW s * rho_sw * cp_sw / 3600;
         epsilon = 0.75
     in energy_balance C_fw C_sw
          (physical_limits (heat_exchange_equation epsilon C_fw C_sw s)))"

text \<open>
  The same method in \<^verbatim>\<open>new_AI_UI_0313_1.py\<close>: it differs only in the last block,
  which takes the minimum of \<open>T2\<close> and \<open>T4\<close> without testing \<open>T2 > T4\<close> first.
\<close>

definition energy_balance_v0313 :: "real \<Rightarrow> real \<Rightarrow> controller \<Rightarrow> controller" where
  "energy_balance_v0313 C_fw C_sw s =
    (if C_sw > 0
     then let s1 = s\<lparr>T2 := T1 s + (C_fw * (T4 s - T5 s)) / C_sw\<rparr>
          in s1\<lparr>T2 := min (T4 s1) (T2 s1)\<rparr>
     else s\<lparr>T2 := T1 s\<rparr>)"

definition calculate_t5_v0313 :: "controller \<Rightarrow> controller" where
  "calculate_t5_v0313 s =
    (let cp_fw = 4200;
         cp_sw = 4000;
         rho_fw = 1000;
         rho_sw = 1025;
         C_fw = m_FW s * rho_fw * cp_fw / 3600;
         C_sw = m_SW s * rho_sw * cp_sw / 3600;
         epsilon = 0.75
     in energy_balance_v0313 C_fw C_sw
          (physical_limits (heat_exchange_equation epsilon C_fw C_sw s)))"

text \<open>\<^verbatim>\<open>calculate_t2\<close> calls \<^verbatim>\<open>calculate_t5\<close>; its return value is ignored by every caller.\<close>

definition calculate_t2 :: "controller \<Rightarrow> controller" where
  "calculate_t2 s = calculate_t5 s"


text \<open>
  The loop \<^verbatim>\<open>for i in range(3)\<close> of \<^verbatim>\<open>update_system\<close> and
  \<^verbatim>\<open>manual_update\<close>, with its \<^verbatim>\<open>break\<close>; the argument counts the passes left.
\<close>

fun refinement_loop :: "nat \<Rightarrow> controller \<Rightarrow> controller" where
  "refinement_loop 0 s = s"
| "refinement_loop (Suc n) s =
    (let old_t2 = T2 s;
         s1 = calculate_t2 s;
         old_t5 = T5 s1;
         s2 = calculate_t5 s1
     in if \<bar>T2 s2 - old_t2\<bar> < 0.01 \<and> \<bar>T5 s2 - old_t5\<bar> < 0.01 then s2
        else refinement_loop n s2)"

definition update_heat_exchanger_efficiency :: "controller \<Rightarrow> controller" where
  "update_heat_exchanger_efficiency s = s\<lparr>heat_exchanger_efficiency := 0.75\<rparr>"

section \<open>Frequency controllers\<close>

definition adjust_fw_pump_frequency :: "real \<Rightarrow> controller \<Rightarrow> controller" where
  "adjust_fw_pump_frequency current_time s =
    (let elapsed_time = current_time - last_update_time s;
         delta_t = T4 s - 36;
         desired_freq = (if delta_t \<ge> 17 then 60
                         else if delta_t \<le> 0 then 40
                         else 40 + (delta_t / 17) * 20);
         desired_freq = max 40 (min 60 desired_freq)
     in if fw_pump_freq s \<noteq> desired_freq then s\<lparr>fw_pump_freq := desired_freq\<rparr> else s)"

text \<open>
  The block under \<^verbatim>\<open>if not hasattr(self, 'sw_base_freq')\<close>: the state after it,
  and the four attributes, which exist from here on.
\<close>

definition sw_first_call :: "controller \<Rightarrow> controller \<times> sw_memory" where
  "sw_first_call s =
    (case sw_mem s of
       None \<Rightarrow>
         (let m = \<lparr>sw_base_freq = 60, prev_t5 = T5 s, t5_direction = None,
                   last_adjustment = None\<rparr>
          in (s\<lparr>sw_pump_freq := 60, sw_mem := Some m\<rparr>, m))
     | Some m \<Rightarrow> (s, m))"

text \<open>
  Double-precision arithmetic, for the deadband test. A Python float is a binary64 number:
  an integer of at most 53 bits times a power of two, the exponent of the power being at
  least \<open>-1074\<close>. \<open>double_quantum a\<close> is the spacing of these numbers at magnitude \<open>a\<close>:
  two to the power \<open>e - 52\<close> for the largest \<open>e\<close> between \<open>-1022\<close> and \<open>1023\<close> with
  \<open>2 ^ e \<le> a\<close>, found by halving from \<open>2 ^ 971\<close>, and two to the power \<open>-1074\<close> when
  there is none. \<open>double_round\<close> rounds to the nearest multiple of the spacing, a tie
  going to the even multiple, which is how a float literal is read and how the result of
  \<^verbatim>\<open>+\<close> and \<^verbatim>\<open>-\<close> on two floats is rounded. Overflow to infinity, from \<open>2 ^ 1024\<close>
  on, is not modelled.
\<close>

definition round_to_even :: "real \<Rightarrow> int" where
  "round_to_even y =
    (let f = \<lfloor>y\<rfloor>; r = y - of_int f
     in if r < 1 / 2 then f else if r > 1 / 2 then f + 1 else if even f then f else f + 1)"

primrec quantum_search :: "nat \<Rightarrow> real \<Rightarrow> real \<Rightarrow> real" where
  "quantum_search 0 q a = q"
| "quantum_search (Suc n) q a = (if q * 2 ^ 52 \<le> a then q else quantum_search n (q / 2) a)"

definition double_quantum :: "real \<Rightarrow> real" where
  "double_quantum a = quantum_search 2045 (2 ^ 971) a"

definition double_round :: "real \<Rightarrow> real" where
  "double_round x = (let q = double_quantum \<bar>x\<bar> in of_int (round_to_even (x / q)) * q)"

definition double_add :: "real \<Rightarrow> real \<Rightarrow> real" where
  "double_add x y = double_round (x + y)"

definition double_sub :: "real \<Rightarrow> real \<Rightarrow> real" where
  "double_sub x y = double_round (x - y)"

text \<open>
  The direction of \<open>T5\<close> against \<^verbatim>\<open>prev_t5\<close>, and whether it has changed. The source
  compares \<open>T5\<close> with the floats \<^verbatim>\<open>self.prev_t5 + 0.05\<close> and
  \<^verbatim>\<open>self.prev_t5 - 0.05\<close>.
\<close>

definition sw_current_direction :: "real \<Rightarrow> sw_memory \<Rightarrow> direction option" where
  "sw_current_direction t5 m =
    (if t5 > double_add (prev_t5 m) (double_round 0.05) then Some Up
     else if t5 < double_sub (prev_t5 m) (double_round 0.05) then Some Down
     else t5_direction m)"

definition sw_direction_changed :: "sw_memory \<Rightarrow> direction option \<Rightarrow> bool" where
  "sw_direction_changed m current_direction =
    (t5_direction m \<noteq> None \<and> current_direction \<noteq> None \<and> t5_direction m \<noteq> current_direction)"

text \<open>
  The decision on \<open>T5\<close>: the value of \<^verbatim>\<open>desired_freq\<close> before it is limited to the
  range, and the memory with \<^verbatim>\<open>last_adjustment\<close> assigned where the source assigns it.
\<close>

definition sw_decide :: "real \<Rightarrow> real \<Rightarrow> bool \<Rightarrow> sw_memory \<Rightarrow> real \<times> sw_memory" where
  "sw_decide t5 freq direction_changed m =
    (if t5 > 36 then
       (if last_adjustment m \<noteq> Some Up \<or> \<not> direction_changed
        then (freq + 2, m\<lparr>last_adjustment := Some Up\<rparr>)
        else (freq, m))
     else if t5 < 34 then
       (if last_adjustment m \<noteq> Some Down \<or> \<not> direction_changed
        then (freq - 2, m\<lparr>last_adjustment := Some Down\<rparr>)
        else (freq, m))
     else (freq, m))"

definition adjust_sw_pump_frequency :: "real \<Rightarrow> controller \<Rightarrow> controller" where
  "adjust_sw_pump_frequency current_time s =
    (let (s0, m0) = sw_first_call s;
         current_direction = sw_current_direction (T5 s0) m0;
         direction_changed = sw_direction_changed m0 current_direction;
         (desired_freq, m1) = sw_decide (T5 s0) (sw_pump_freq s0) direction_changed m0;
         desired_freq = max 35 (min 60 desired_freq);
         s1 = (if sw_pump_freq s0 \<noteq> desired_freq then s0\<lparr>sw_pump_freq := desired_freq\<rparr>
               else s0)
     in s1\<lparr>sw_mem := Some (m1\<lparr>prev_t5 := T5 s1, t5_direction := current_direction\<rparr>)\<rparr>)"

section \<open>Pump-count scheduler and alarm monitor\<close>

definition adjust_pump_count_by_load :: "controller \<Rightarrow> controller" where
  "adjust_pump_count_by_load s =
    (let s1 = (if engine_load s < 10
               then (let a = (if fw_pump_count s > 1 then s\<lparr>fw_pump_count := 1\<rparr> else s)
                     in if sw_pump_count a > 1 then a\<lparr>sw_pump_count := 1\<rparr> else a)
               else (let a = (if fw_pump_count s < 2 then s\<lparr>fw_pump_count := 2\<rparr> else s)
                     in if sw_pump_count a < 2 then a\<lparr>sw_pump_count := 2\<rparr> else a));
         s2 = (if fw_pump_freq s1 > 60 then s1\<lparr>fw_pump_freq := 60\<rparr> else s1)
     in if sw_pump_freq s2 > 60 then s2\<lparr>sw_pump_freq := 60\<rparr> else s2)"

text \<open>
  \<^verbatim>\<open>check_alarm_conditions\<close> resets both attributes and then runs three independent
  \<^verbatim>\<open>if\<close> statements; the third has an \<^verbatim>\<open>elif\<close>. The comparison with the previous
  alarm at its end only chooses a log line.
\<close>

definition alarm_T5 :: "controller \<Rightarrow> controller" where
  "alarm_T5 s =
    (if T5 s > 40 then s\<lparr>alarm_active := True, alarm_message := T5_high_text (T5 s)\<rparr> else s)"

definition alarm_T2 :: "controller \<Rightarrow> controller" where
  "alarm_T2 s =
    (if T2 s > 49 then s\<lparr>alarm_active := True, alarm_message := T2_high_text (T2 s)\<rparr> else s)"

definition alarm_DP1 :: "controller \<Rightarrow> controller" where
  "alarm_DP1 s =
    (if DP1 s < 0.5 then s\<lparr>alarm_active := True, alarm_message := DP1_low_text (DP1 s)\<rparr>
     else if DP1 s > 2.5 then s\<lparr>alarm_active := True, alarm_message := DP1_high_text (DP1 s)\<rparr>
     else s)"

definition check_alarm_conditions :: "controller \<Rightarrow> controller" where
  "check_alarm_conditions s =
    alarm_DP1 (alarm_T2 (alarm_T5 (s\<lparr>alarm_active := False, alarm_message := Empty_text\<rparr>)))"

section \<open>Update loop\<close>

definition simulate_temperature_changes :: "environment \<Rightarrow> controller \<Rightarrow> controller" where
  "simulate_temperature_changes env s =
    (let current_time = time_simulate env;
         t1_change = 0.05 * randn_t1 env;
         t4_change = 0.05 * randn_t4 env;
         s1 = s\<lparr>T1 := T1 s + t1_change\<rparr>;
         s2 = s1\<lparr>T4 := T4 s1 + t4_change\<rparr>;
         s3 = s2\<lparr>T1 := max 0 (min 36 (T1 s2))\<rparr>;
         s4 = s3\<lparr>T4 := max 36 (min 53 (T4 s3))\<rparr>;
         age_factor = max 0.6 (1 - (operating_hours s4 / 10000))
     in s4\<lparr>heat_exchanger_efficiency := 0.85 * age_factor\<rparr>)"

text \<open>The twelve \<^verbatim>\<open>append\<close> calls on the series lists.\<close>

definition append_series :: "real \<Rightarrow> controller \<Rightarrow> controller" where
  "append_series current_time s =
    s\<lparr>time_data := time_data s @ [current_time],
      t1_data := t1_data s @ [T1 s],
      t2_data := t2_data s @ [T2 s],
      t4_data := t4_data s @ [T4 s],
      t5_data := t5_data s @ [T5 s],
      dp1_data := dp1_data s @ [DP1 s],
      fw_freq_data := fw_freq_data s @ [fw_pump_freq s],
      sw_freq_data := sw_freq_data s @ [sw_pump_freq s],
      fw_count_data := fw_count_data s @ [fw_pump_count s],
      sw_count_data := sw_count_data s @ [sw_pump_count s],
      efficiency_data := efficiency_data s @ [heat_exchanger_efficiency s],
      engine_load_data := engine_load_data s @ [engine_load s]\<rparr>"

text \<open>The dictionary \<^verbatim>\<open>data_point\<close> and its \<^verbatim>\<open>append\<close> to \<^verbatim>\<open>data_log\<close>.\<close>

definition append_data_log :: "real \<Rightarrow> controller \<Rightarrow> controller" where
  "append_data_log current_time s =
    (let data_point =
           \<lparr>dp_Time = current_time, dp_T1 = T1 s, dp_T2 = T2 s, dp_T4 = T4 s, dp_T5 = T5 s,
            dp_DP1 = DP1 s, dp_FW_FREQ = fw_pump_freq s, dp_SW_FREQ = sw_pump_freq s,
            dp_FW_COUNT = fw_pump_count s, dp_SW_COUNT = sw_pump_count s,
            dp_EFFICIENCY = heat_exchanger_efficiency s, dp_ENGINE_LOAD = engine_load s,
            dp_FW_FLOW = m_FW s, dp_SW_FLOW = m_SW s\<rparr>
     in s\<lparr>data_log := data_log s @ [data_point]\<rparr>)"

text \<open>
  Python's \<^verbatim>\<open>xs[-n:]\<close> is the last \<open>n\<close> elements of \<open>xs\<close>, and all of \<open>xs\<close> when it
  has fewer; subtraction on \<open>nat\<close> stops at \<open>0\<close>, which gives exactly that.
\<close>

definition last_n :: "nat \<Rightarrow> 'a list \<Rightarrow> 'a list" where
  "last_n n xs = drop (length xs - n) xs"

text \<open>The block that limits the data size; it tests the length of \<^verbatim>\<open>time_data\<close> only.\<close>

definition limit_data_size :: "controller \<Rightarrow> controller" where
  "limit_data_size s =
    (let max_data_points = 1000
     in if length (time_data s) > max_data_points
        then s\<lparr>time_data := last_n max_data_points (time_data s),
               t1_data := last_n max_data_points (t1_data s),
               t2_data := last_n max_data_points (t2_data s),
               t4_data := last_n max_data_points (t4_data s),
               t5_data := last_n max_data_points (t5_data s),
               dp1_data := last_n max_data_points (dp1_data s),
               fw_freq_data := last_n max_data_points (fw_freq_data s),
               sw_freq_data := last_n max_data_points (sw_freq_data s),
               fw_count_data := last_n max_data_points (fw_count_data s),
               sw_count_data := last_n max_data_points (sw_count_data s),
               efficiency_data := last_n max_data_points (efficiency_data s),
               engine_load_data := last_n max_data_points (engine_load_data s)\<rparr>
        else s)"

text \<open>
  \<^verbatim>\<open>update_system\<close> in three parts: the statements before the loop, the loop, and
  the statements after it. The result is the new state and the returned triple
  \<^verbatim>\<open>(T5, T2, DP1)\<close>.
\<close>

definition update_system_prepare :: "environment \<Rightarrow> controller \<Rightarrow> controller" where
  "update_system_prepare env s =
    (if simulation_mode s \<and> \<not> user_input_mode s then simulate_temperature_changes env s
     else s)"

definition update_system_finish :: "environment \<Rightarrow> controller \<Rightarrow> controller" where
  "update_system_finish env s =
    (let current_time = time_update env;
         s1 = update_flow_rates s;
         s2 = update_heat_exchanger_efficiency s1;
         s3 = adjust_fw_pump_frequency (time_fw env) s2;
         s4 = adjust_sw_pump_frequency (time_sw env) s3;
         s5 = adjust_pump_count_by_load s4;
         s6 = check_alarm_conditions s5;
         s7 = append_series current_time s6;
         s8 = append_data_log current_time s7;
         s9 = s8\<lparr>operating_hours :=
                  operating_hours s8 + (current_time - last_update_time s8) / 3600\<rparr>;
         s10 = s9\<lparr>last_update_time := current_time\<rparr>
     in limit_data_size s10)"

definition update_system :: "environment \<Rightarrow> controller \<Rightarrow> controller \<times> (real \<times> real \<times> real)" where
  "update_system env s =
    (let s' = update_system_finish env (refinement_loop 3 (update_system_prepare env s))
     in (s', (T5 s', T2 s', DP1 s')))"

text \<open>
  The statements before the loop in \<^verbatim>\<open>update_system\<close> of
  \<^verbatim>\<open>new_AI_UI_0313_1.py\<close>, which keeps the time first and has the test on
  \<open>T5\<close> and \<open>T4\<close> that the later file has in \<^verbatim>\<open>manual_update\<close> only.
\<close>

definition update_system_prepare_v0313 :: "environment \<Rightarrow> controller \<Rightarrow> controller" where
  "update_system_prepare_v0313 env s =
    (let current_time = time_update env;
         elapsed_time = current_time - last_update_time s;
         s1 = s\<lparr>last_update_time := current_time\<rparr>;
         s2 = s1\<lparr>operating_hours := operating_hours s1 + elapsed_time / 3600\<rparr>;
         s3 = (if simulation_mode s2 \<and> \<not> user_input_mode s2
               then simulate_temperature_changes env s2 else s2)
     in if \<bar>T5 s3 - T4 s3\<bar> < 0.1 then s3\<lparr>T5 := T4 s3 - 2\<rparr> else s3)"

text \<open>\<^verbatim>\<open>manual_update\<close>, in the same three parts.\<close>

definition manual_update_prepare :: "real \<Rightarrow> real \<Rightarrow> real \<Rightarrow> real \<Rightarrow> controller \<Rightarrow> controller" where
  "manual_update_prepare t4 t1 dp1 load s =
    (let s1 = s\<lparr>T4 := t4\<rparr>;
         s2 = s1\<lparr>T1 := t1\<rparr>;
         s3 = s2\<lparr>DP1 := dp1\<rparr>;
         s4 = s3\<lparr>engine_load := load\<rparr>
     in if \<bar>T5 s4 - T4 s4\<bar> < 0.1 then s4\<lparr>T5 := T4 s4 - 2\<rparr> else s4)"

definition manual_update_finish :: "environment \<Rightarrow> controller \<Rightarrow> controller" where
  "manual_update_finish env s =
    (let s1 = update_flow_rates s;
         s2 = adjust_fw_pump_frequency (time_fw env) s1;
         s3 = adjust_sw_pump_frequency (time_sw env) s2;
         s4 = adjust_pump_count_by_load s3
     in check_alarm_conditions s4)"

definition manual_update ::
  "environment \<Rightarrow> real \<Rightarrow> real \<Rightarrow> real \<Rightarrow> real \<Rightarrow> controller \<Rightarrow> controller \<times> (real \<times> real \<times> real)" where
  "manual_update env t4 t1 dp1 load s =
    (let s' = manual_update_finish env (refinement_loop 3 (manual_update_prepare t4 t1 dp1 load s))
     in (s', (T5 s', T2 s', DP1 s')))"

text \<open>
  The constructor: the attribute values of \<^verbatim>\<open>__init__\<close>, then its call of
  \<^verbatim>\<open>update_flow_rates\<close>. The argument is the clock reading kept in
  \<^verbatim>\<open>last_update_time\<close>.
\<close>

definition init_controller :: "real \<Rightarrow> controller" where
  "init_controller now =
    update_flow_rates
      \<lparr>T1 = 25, T2 = 30, T4 = 36, T5 = 32, DP1 = 1.5,
       fw_pump_freq = 45, sw_pump_freq = 60, fw_pump_count = 2, sw_pump_count = 2,
       m_FW = 0, m_SW = 0, heat_exchanger_efficiency = 0.75, engine_load = 75,
       alarm_active = False, alarm_message = Empty_text,
       simulation_mode = True, user_input_mode = False,
       last_update_time = now, operating_hours = 0,
       time_data = [], t1_data = [], t2_data = [], t4_data = [], t5_data = [],
       dp1_data = [], fw_freq_data = [], sw_freq_data = [], fw_count_data = [],
       sw_count_data = [], efficiency_data = [], engine_load_data = [],
       data_log = [], sw_mem = None\<rparr>"

text \<open>
  The body of \<^verbatim>\<open>run\<close> calls \<^verbatim>\<open>update_system\<close> once per pass of its loop; a run
  of finitely many passes is the list of what each pass reads from outside.
\<close>

fun run_cycles :: "environment list \<Rightarrow> controller \<Rightarrow> controller" where
  "run_cycles [] s = s"
| "run_cycles (env # envs) s = run_cycles envs (fst (update_system env s))"

section \<open>States used as examples\<close>

text \<open>
  The constructed controller with its fresh-water flow set to zero and a sea-water inlet
  warmer than the fresh-water inlet.
\<close>

definition zero_flow_state :: controller where
  "zero_flow_state = (init_controller 0)\<lparr>T1 := 30, T4 := 20, m_FW := 0\<rparr>"

section \<open>The laws as the specification words them\<close>

text \<open>
  The fresh-water law as a function of \<open>\<Delta> = T4 - 36\<close>: 60 Hz at \<open>\<Delta> \<ge> 17\<close>, 40 Hz at
  \<open>\<Delta> \<le> 0\<close>, and \<open>40 + (\<Delta>/17)\<cdot>20\<close> between.
\<close>

definition fw_law :: "real \<Rightarrow> real" where
  "fw_law d = (if d \<ge> 17 then 60 else if d \<le> 0 then 40 else 40 + (d / 17) * 20)"

text \<open>
  The message of the last condition that holds in a list of conditions checked in order,
  and the empty message when none holds.
\<close>

definition last_true_message :: "(bool \<times> alarm_text) list \<Rightarrow> alarm_text" where
  "last_true_message conds =
     (case filter fst conds of [] \<Rightarrow> Empty_text | c # cs \<Rightarrow> snd (last (c # cs)))"

section \<open>Further example states\<close>

text \<open>
  States of the sea-water controller after its first call: a low \<open>T5\<close> at 36 Hz; a high
  \<open>T5\<close> that has turned from rising to falling after an increase; a low \<open>T5\<close> that
  has turned from falling to rising after a decrease; and a low \<open>T5\<close> that keeps falling.
\<close>

definition sw_low_state :: controller where
  "sw_low_state =
     (init_controller 0)\<lparr>T5 := 30, sw_pump_freq := 36,
        sw_mem := Some \<lparr>sw_base_freq = 60, prev_t5 = 30, t5_direction = None,
                         last_adjustment = Some Down\<rparr>\<rparr>"

definition sw_reversed_state :: controller where
  "sw_reversed_state =
     (init_controller 0)\<lparr>T5 := 37, sw_pump_freq := 50,
        sw_mem := Some \<lparr>sw_base_freq = 60, prev_t5 = 38, t5_direction = Some Up,
                         last_adjustment = Some Up\<rparr>\<rparr>"

definition sw_reversed_low_state :: controller where
  "sw_reversed_low_state =
     (init_controller 0)\<lparr>T5 := 33, sw_pump_freq := 50,
        sw_mem := Some \<lparr>sw_base_freq = 60, prev_t5 = 32, t5_direction = Some Down,
                         last_adjustment = Some Down\<rparr>\<rparr>"

text \<open>
  A state at the edge of the deadband: \<^verbatim>\<open>prev_t5\<close> is the float \<open>27.1\<close> and \<open>T5\<close> the
  float \<open>27.05\<close>, both written as the fractions they are.
\<close>

definition sw_edge_state :: controller where
  "sw_edge_state =
     (init_controller 0)\<lparr>T5 := 7613898120023245 / 281474976710656, sw_pump_freq := 58,
        sw_mem := Some \<lparr>sw_base_freq = 60, prev_t5 = 3813985934429389 / 140737488355328,
                         t5_direction = None, last_adjustment = Some Down\<rparr>\<rparr>"

definition sw_falling_state :: controller where
  "sw_falling_state =
     (init_controller 0)\<lparr>T5 := 30, sw_pump_freq := 50,
        sw_mem := Some \<lparr>sw_base_freq = 60, prev_t5 = 31, t5_direction = Some Down,
                         last_adjustment = Some Down\<rparr>\<rparr>"

section \<open>Closed forms and further names used in the proofs\<close>

text \<open>
  The value the heat-exchange equation assigns to \<open>T5\<close>, and the values the whole
  solver assigns to \<open>T5\<close> and \<open>T2\<close>, as functions of the two inlet temperatures and
  the two flows. They are shown below to be what \<^verbatim>\<open>calculate_t5\<close> assigns.
\<close>

definition heat_exchange_T5 :: "real \<Rightarrow> real \<Rightarrow> real \<Rightarrow> real \<Rightarrow> real \<Rightarrow> real" where
  "heat_exchange_T5 epsilon C_fw C_sw t1 t4 =
    (if C_fw \<le> 0 \<or> C_sw \<le> 0 then t4
     else if min C_fw C_sw = C_fw then t4 - epsilon * (t4 - t1)
     else t4 - (epsilon * C_sw * (t4 - t1)) / C_fw)"

definition solver_T5 :: "real \<Rightarrow> real \<Rightarrow> real \<Rightarrow> real \<Rightarrow> real" where
  "solver_T5 t1 t4 mfw msw =
    max t1 (min t4 (heat_exchange_T5 0.75 (mfw * 1000 * 4200 / 3600) (msw * 1025 * 4000 / 3600) t1 t4))"

definition solver_T2 :: "real \<Rightarrow> real \<Rightarrow> real \<Rightarrow> real \<Rightarrow> real" where
  "solver_T2 t1 t4 mfw msw =
    (if msw * 1025 * 4000 / 3600 > 0
     then min t4 (t1 + ((mfw * 1000 * 4200 / 3600) * (t4 - solver_T5 t1 t4 mfw msw))
                        / (msw * 1025 * 4000 / 3600))
     else t1)"

text \<open>
  The frequency and the memory that \<^verbatim>\<open>adjust_sw_pump_frequency\<close> commits, shown
  below to be what it assigns.
\<close>

definition sw_next_freq :: "controller \<Rightarrow> real" where
  "sw_next_freq s =
     max 35 (min 60 (fst (sw_decide (T5 s) (sw_pump_freq (fst (sw_first_call s)))
        (sw_direction_changed (snd (sw_first_call s))
           (sw_current_direction (T5 s) (snd (sw_first_call s))))
        (snd (sw_first_call s)))))"

definition sw_next_mem :: "controller \<Rightarrow> sw_memory" where
  "sw_next_mem s =
     (snd (sw_decide (T5 s) (sw_pump_freq (fst (sw_first_call s)))
        (sw_direction_changed (snd (sw_first_call s))
           (sw_current_direction (T5 s) (snd (sw_first_call s))))
        (snd (sw_first_call s))))
       \<lparr>prev_t5 := T5 s,
        t5_direction := sw_current_direction (T5 s) (snd (sw_first_call s))\<rparr>"

text \<open>Both pump counts are 1 or 2.\<close>

definition counts_ok :: "controller \<Rightarrow> bool" where
  "counts_ok s = (fw_pump_count s \<in> {1, 2} \<and> sw_pump_count s \<in> {1, 2})"

text \<open>
  An environment with the clock at zero and both random draws zero, and the state left by
  \<^verbatim>\<open>manual_update(36, 36, 1.5, 75)\<close> on a constructed controller in user-input mode,
  in which \<open>T5 = T4 = 36\<close>.
\<close>

definition env0 :: environment where
  "env0 = \<lparr>time_update = 0, time_simulate = 0, time_fw = 0, time_sw = 0,
            randn_t1 = 0, randn_t4 = 0\<rparr>"

definition level_state :: controller where
  "level_state = fst (manual_update env0 36 36 1.5 75 ((init_controller 0)\<lparr>user_input_mode := True\<rparr>))"

text \<open>
  A run of manual updates with a cold sea-water inlet: \<^verbatim>\<open>manual_update(36, 25, 1.5, 75)\<close>
  repeated on a constructed controller, and what stays true from the first of them on
  while the sea-water frequency is \<open>f\<close>.
\<close>

definition cool_update :: "controller \<Rightarrow> controller" where
  "cool_update s = fst (manual_update env0 36 25 1.5 75 s)"

fun cool_run :: "nat \<Rightarrow> controller" where
  "cool_run 0 = init_controller 0"
| "cool_run (Suc n) = cool_update (cool_run n)"

definition cool_inv :: "real \<Rightarrow> controller \<Rightarrow> bool" where
  "cool_inv f s =
     (sw_pump_freq s = f \<and> fw_pump_freq s = 40 \<and> fw_pump_count s = 2 \<and> sw_pump_count s = 2
      \<and> 0 < m_FW s \<and> 0 < m_SW s \<and> m_FW s * 4200000 \<le> m_SW s * 4100000
      \<and> sw_mem s = Some \<lparr>sw_base_freq = 60, prev_t5 = 27.75, t5_direction = None,
                            last_adjustment = Some Down\<rparr>)"

section \<open>The constructed state\<close>

lemma init_controller_fields:
  "T1 (init_controller now) = 25" "T2 (init_controller now) = 30"
  "T4 (init_controller now) = 36" "T5 (init_controller now) = 32"
  "DP1 (init_controller now) = 1.5"
  "m_FW (init_controller now) = 1935" "m_SW (init_controller now) = 3000"
  "fw_pump_freq (init_controller now) = 45" "sw_pump_freq (init_controller now) = 60"
  "fw_pump_count (init_controller now) = 2" "sw_pump_count (init_controller now) = 2"
  "engine_load (init_controller now) = 75"
  "simulation_mode (init_controller now) = True" "user_input_mode (init_controller now) = False"
  "sw_mem (init_controller now) = None"
  "time_data (init_controller now) = []" "data_log (init_controller now) = []"
  by (simp_all add: init_controller_def update_flow_rates_def Let_def)

section \<open>Properties of the thermal solver\<close>

subsection \<open>What each block assigns\<close>

lemma heat_exchange_equation_keeps:
  "T1 (heat_exchange_equation e a b s) = T1 s"
  "T4 (heat_exchange_equation e a b s) = T4 s"
  "m_FW (heat_exchange_equation e a b s) = m_FW s"
  "m_SW (heat_exchange_equation e a b s) = m_SW s"
  by (simp_all add: heat_exchange_equation_def Let_def)

lemma heat_exchange_equation_zero_flow:
  "a \<le> 0 \<or> b \<le> 0 \<Longrightarrow> T5 (heat_exchange_equation e a b s) = T4 s"
  by (simp add: heat_exchange_equation_def)

lemma physical_limits_keeps:
  "T1 (physical_limits s) = T1 s"
  "T4 (physical_limits s) = T4 s"
  "m_FW (physical_limits s) = m_FW s"
  "m_SW (physical_limits s) = m_SW s"
  by (simp_all add: physical_limits_def Let_def)

lemma physical_limits_T5:
  "T5 (physical_limits s) = max (T1 s) (min (T4 s) (T5 s))"
  by (simp add: physical_limits_def Let_def)

lemma energy_balance_keeps:
  "T1 (energy_balance a b s) = T1 s"
  "T4 (energy_balance a b s) = T4 s"
  "T5 (energy_balance a b s) = T5 s"
  "m_FW (energy_balance a b s) = m_FW s"
  "m_SW (energy_balance a b s) = m_SW s"
  by (simp_all add: energy_balance_def Let_def)

lemma energy_balance_T2:
  "T2 (energy_balance a b s) =
     (if b > 0 then min (T4 s) (T1 s + (a * (T4 s - T5 s)) / b) else T1 s)"
  by (simp add: energy_balance_def Let_def min_def)

lemma calculate_t5_inlets:
  "T1 (calculate_t5 s) = T1 s" "T4 (calculate_t5 s) = T4 s"
  "m_FW (calculate_t5 s) = m_FW s" "m_SW (calculate_t5 s) = m_SW s"
  by (simp_all add: calculate_t5_def Let_def energy_balance_keeps physical_limits_keeps
      heat_exchange_equation_keeps)

lemma calculate_t5_T5:
  "T5 (calculate_t5 s) =
     max (T1 s) (min (T4 s)
       (T5 (heat_exchange_equation 0.75 (m_FW s * 1000 * 4200 / 3600)
              (m_SW s * 1025 * 4000 / 3600) s)))"
  by (simp add: calculate_t5_def Let_def energy_balance_keeps physical_limits_T5
      heat_exchange_equation_keeps)

lemma calculate_t5_T2:
  "T2 (calculate_t5 s) =
     (if m_SW s * 1025 * 4000 / 3600 > 0
      then min (T4 s)
             (T1 s + ((m_FW s * 1000 * 4200 / 3600) * (T4 s - T5 (calculate_t5 s)))
                       / (m_SW s * 1025 * 4000 / 3600))
      else T1 s)"
  unfolding calculate_t5_T5
  by (simp only: calculate_t5_def Let_def energy_balance_T2 physical_limits_keeps
      physical_limits_T5 heat_exchange_equation_keeps)

text \<open>The two files compute the same solver.\<close>

lemma energy_balance_v0313_eq: "energy_balance_v0313 a b s = energy_balance a b s"
  by (simp add: energy_balance_v0313_def energy_balance_def Let_def min_def)

lemma calculate_t5_v0313_eq: "calculate_t5_v0313 s = calculate_t5 s"
  by (simp add: calculate_t5_v0313_def calculate_t5_def energy_balance_v0313_eq)

text \<open>On the constructed state the solver gives \<open>T5 = 27.75\<close>.\<close>

lemma calculate_t5_init_values:
  "T5 (calculate_t5 (init_controller 0)) = 27.75"
  "T2 (calculate_t5 (init_controller 0))
     = 25 + (1935 * 4200000 / 3600) * 8.25 / (3000 * 4100000 / 3600)"
  by (simp_all add: calculate_t5_T2 calculate_t5_T5 init_controller_fields
      heat_exchange_equation_def Let_def)

subsection \<open>Bounds on the outlet temperatures\<close>

text \<open>
  Claim C1. After a call of \<^verbatim>\<open>calculate_t5\<close> from a state with nonnegative flows
  \<open>m_FW\<close> and \<open>m_SW\<close> and inlet temperatures \<open>T1 \<le> T4\<close>, the state satisfies
  \<open>T1 \<le> T5 \<le> T4\<close> and \<open>T1 \<le> T2 \<le> T4\<close>. By \<open>calculate_t5_v0313_eq\<close> the solver of
  the earlier file is the same function.
\<close>

theorem calculate_t5_bounds:
  assumes "0 \<le> m_FW s" and "0 \<le> m_SW s" and "T1 s \<le> T4 s"
  shows "T1 (calculate_t5 s) \<le> T5 (calculate_t5 s)
       \<and> T5 (calculate_t5 s) \<le> T4 (calculate_t5 s)
       \<and> T1 (calculate_t5 s) \<le> T2 (calculate_t5 s)
       \<and> T2 (calculate_t5 s) \<le> T4 (calculate_t5 s)"
proof -
  let ?s' = "calculate_t5 s"
  have t5: "T1 s \<le> T5 ?s' \<and> T5 ?s' \<le> T4 s"
    using assms(3) by (simp add: calculate_t5_T5)
  have t2_hi: "T2 ?s' \<le> T4 s"
    using assms(3) by (simp add: calculate_t5_T2)
  have t2_lo: "T1 s \<le> T2 ?s'"
  proof (cases "m_SW s * 1025 * 4000 / 3600 > 0")
    case False
    then show ?thesis by (simp add: calculate_t5_T2)
  next
    case True
    have "0 \<le> (m_FW s * 1000 * 4200 / 3600) * (T4 s - T5 ?s')"
      using assms(1) t5 by (intro mult_nonneg_nonneg) simp_all
    then have "0 \<le> ((m_FW s * 1000 * 4200 / 3600) * (T4 s - T5 ?s'))
                      / (m_SW s * 1025 * 4000 / 3600)"
      using True by (intro divide_nonneg_pos)
    then show ?thesis
      using True assms(3)
      by (subst calculate_t5_T2) (simp del: times_divide_eq_left times_divide_eq_right)
  qed
  show ?thesis using t5 t2_hi t2_lo by (simp add: calculate_t5_inlets)
qed

text \<open>The theorem at the constructed state, whose flows are 1935 and 3000.\<close>

theorem calculate_t5_bounds_witness:
  "0 \<le> m_FW (init_controller 0) \<and> 0 \<le> m_SW (init_controller 0)
   \<and> T1 (init_controller 0) \<le> T4 (init_controller 0)
   \<and> T1 (calculate_t5 (init_controller 0)) \<le> T5 (calculate_t5 (init_controller 0))
   \<and> T5 (calculate_t5 (init_controller 0)) \<le> T4 (calculate_t5 (init_controller 0))
   \<and> T1 (calculate_t5 (init_controller 0)) \<le> T2 (calculate_t5 (init_controller 0))
   \<and> T2 (calculate_t5 (init_controller 0)) \<le> T4 (calculate_t5 (init_controller 0))"
  using calculate_t5_bounds [of "init_controller 0"]
  by (simp add: init_controller_fields)

subsection \<open>Zero flow\<close>

text \<open>
  Claim C2, as stated: whenever \<open>m_FW = 0\<close> or \<open>m_SW = 0\<close> the solver sets \<open>T5 = T4\<close>
  and \<open>T2 = T1\<close>. It fails where the sea-water inlet is warmer than the fresh-water
  inlet: with \<open>m_FW = 0\<close>, \<open>T1 = 30\<close> and \<open>T4 = 20\<close> the limits applied after the
  equation raise \<open>T5\<close> to \<open>T1 = 30\<close> and lower \<open>T2\<close> to \<open>T4 = 20\<close>.
\<close>

theorem calculate_t5_zero_flow_counterexample:
  "m_FW zero_flow_state = 0
   \<and> T5 (calculate_t5 zero_flow_state) = 30 \<and> T4 zero_flow_state = 20
   \<and> T2 (calculate_t5 zero_flow_state) = 20 \<and> T1 zero_flow_state = 30"
  by (simp add: zero_flow_state_def calculate_t5_T2 calculate_t5_T5 init_controller_fields
      heat_exchange_equation_def)

text \<open>
  Claim C2, amended: for every state with \<open>T1 \<le> T4\<close> in which \<open>m_FW \<le> 0\<close> or
  \<open>m_SW \<le> 0\<close> (so the heat-capacity rate of that side is not positive), the solver
  sets \<open>T5 = T4\<close> and \<open>T2 = T1\<close> exactly.
\<close>

theorem calculate_t5_zero_flow:
  assumes flow: "m_FW s \<le> 0 \<or> m_SW s \<le> 0" and inlet: "T1 s \<le> T4 s"
  shows "T5 (calculate_t5 s) = T4 s \<and> T2 (calculate_t5 s) = T1 s"
proof -
  have "m_FW s * 1000 * 4200 / 3600 \<le> 0 \<or> m_SW s * 1025 * 4000 / 3600 \<le> 0"
    using flow by auto
  then have t5: "T5 (calculate_t5 s) = T4 s"
    using inlet by (simp add: calculate_t5_T5 heat_exchange_equation_zero_flow)
  have "T2 (calculate_t5 s) = T1 s"
    using inlet by (subst calculate_t5_T2) (simp add: t5)
  with t5 show ?thesis by simp
qed

text \<open>The amended statement at the constructed state with the sea-water flow set to zero.\<close>

theorem calculate_t5_zero_flow_witness:
  "(m_FW ((init_controller 0)\<lparr>m_SW := 0\<rparr>) \<le> 0 \<or> m_SW ((init_controller 0)\<lparr>m_SW := 0\<rparr>) \<le> 0)
   \<and> T1 ((init_controller 0)\<lparr>m_SW := 0\<rparr>) \<le> T4 ((init_controller 0)\<lparr>m_SW := 0\<rparr>)
   \<and> T5 (calculate_t5 ((init_controller 0)\<lparr>m_SW := 0\<rparr>)) = 36
   \<and> T2 (calculate_t5 ((init_controller 0)\<lparr>m_SW := 0\<rparr>)) = 25"
  using calculate_t5_zero_flow [of "(init_controller 0)\<lparr>m_SW := 0\<rparr>"]
  by (simp add: init_controller_fields)

section \<open>Each function as an update of the attributes it assigns\<close>

subsection \<open>The solver and the loop\<close>

lemma heat_exchange_equation_closed:
  "heat_exchange_equation e a b s = s\<lparr>T5 := heat_exchange_T5 e a b (T1 s) (T4 s)\<rparr>"
  by (simp add: heat_exchange_equation_def heat_exchange_T5_def Let_def)

lemma physical_limits_closed:
  "physical_limits s = s\<lparr>T5 := max (T1 s) (min (T4 s) (T5 s))\<rparr>"
  by (simp add: physical_limits_def Let_def)

lemma energy_balance_closed:
  "energy_balance a b s =
     s\<lparr>T2 := (if b > 0 then min (T4 s) (T1 s + (a * (T4 s - T5 s)) / b) else T1 s)\<rparr>"
  by (simp add: energy_balance_def Let_def min_def)

lemma calculate_t5_closed:
  "calculate_t5 s =
     s\<lparr>T5 := solver_T5 (T1 s) (T4 s) (m_FW s) (m_SW s),
       T2 := solver_T2 (T1 s) (T4 s) (m_FW s) (m_SW s)\<rparr>"
  unfolding calculate_t5_def Let_def heat_exchange_equation_closed physical_limits_closed
    energy_balance_closed solver_T2_def solver_T5_def
  by simp

lemma calculate_t5_idem: "calculate_t5 (calculate_t5 s) = calculate_t5 s"
  by (simp add: calculate_t5_closed)

text \<open>
  A second solve from the same inlets and flows assigns the same values, so the loop of up
  to three passes always ends in the state of a single solve.
\<close>

lemma refinement_loop_Suc: "refinement_loop (Suc n) s = calculate_t5 s"
  by (induction n) (simp_all add: Let_def calculate_t2_def calculate_t5_idem)

lemma refinement_loop_cases:
  "refinement_loop n s = (if n = 0 then s else calculate_t5 s)"
  by (cases n) (simp_all add: refinement_loop_Suc del: refinement_loop.simps(2))

subsection \<open>The other functions\<close>

lemma update_flow_rates_closed:
  "update_flow_rates s =
     s\<lparr>m_FW := 1290 * (fw_pump_freq s / 60) * real_of_int (fw_pump_count s),
       m_SW := 1500 * (sw_pump_freq s / 60) * real_of_int (sw_pump_count s)\<rparr>"
  by (simp add: update_flow_rates_def Let_def)

lemma adjust_fw_pump_frequency_closed:
  "adjust_fw_pump_frequency now s =
     s\<lparr>fw_pump_freq := max 40 (min 60 (if T4 s - 36 \<ge> 17 then 60 else if T4 s - 36 \<le> 0 then 40
                     else 40 + ((T4 s - 36) / 17) * 20))\<rparr>"
  by (simp add: adjust_fw_pump_frequency_def Let_def)

lemma sw_first_call_closed:
  "fst (sw_first_call s) =
     s\<lparr>sw_pump_freq := sw_pump_freq (fst (sw_first_call s)),
       sw_mem := Some (snd (sw_first_call s))\<rparr>"
proof (cases "sw_mem s")
  case None
  then show ?thesis by (simp add: sw_first_call_def Let_def)
next
  case (Some m)
  then have "sw_first_call s = (s, m)" by (simp add: sw_first_call_def)
  moreover have "s\<lparr>sw_pump_freq := sw_pump_freq s, sw_mem := Some m\<rparr> = s"
    using Some by simp
  ultimately show ?thesis by simp
qed

lemma commit_sw_pump_freq:
  "(if sw_pump_freq s \<noteq> d then s\<lparr>sw_pump_freq := d\<rparr> else s) = s\<lparr>sw_pump_freq := d\<rparr>"
  by simp

lemma adjust_sw_pump_frequency_closed:
  "adjust_sw_pump_frequency now s =
     s\<lparr>sw_pump_freq := sw_next_freq s, sw_mem := Some (sw_next_mem s)\<rparr>"
proof -
  have t5: "T5 (fst (sw_first_call s)) = T5 s"
    by (simp add: sw_first_call_def Let_def split: option.splits)
  have "adjust_sw_pump_frequency now s =
          (fst (sw_first_call s))\<lparr>sw_pump_freq := sw_next_freq s, sw_mem := Some (sw_next_mem s)\<rparr>"
    unfolding adjust_sw_pump_frequency_def Let_def split_beta commit_sw_pump_freq
      sw_next_freq_def sw_next_mem_def t5
    by (simp add: t5)
  also have "\<dots> = s\<lparr>sw_pump_freq := sw_next_freq s, sw_mem := Some (sw_next_mem s)\<rparr>"
    by (subst sw_first_call_closed) simp
  finally show ?thesis .
qed

lemma adjust_pump_count_by_load_closed:
  "adjust_pump_count_by_load s =
     s\<lparr>fw_pump_count := (if engine_load s < 10 then (if fw_pump_count s > 1 then 1 else fw_pump_count s)
        else (if fw_pump_count s < 2 then 2 else fw_pump_count s)),
       sw_pump_count := (if engine_load s < 10 then (if sw_pump_count s > 1 then 1 else sw_pump_count s)
        else (if sw_pump_count s < 2 then 2 else sw_pump_count s)),
       fw_pump_freq := min 60 (fw_pump_freq s),
       sw_pump_freq := min 60 (sw_pump_freq s)\<rparr>"
  by (simp add: adjust_pump_count_by_load_def Let_def min_def)

lemma check_alarm_conditions_closed:
  "check_alarm_conditions s =
     s\<lparr>alarm_active := (T5 s > 40 \<or> T2 s > 49 \<or> DP1 s < 0.5 \<or> DP1 s > 2.5),
       alarm_message := (if DP1 s < 0.5 then DP1_low_text (DP1 s)
        else if DP1 s > 2.5 then DP1_high_text (DP1 s)
        else if T2 s > 49 then T2_high_text (T2 s)
        else if T5 s > 40 then T5_high_text (T5 s)
        else Empty_text)\<rparr>"
  by (simp add: check_alarm_conditions_def alarm_DP1_def alarm_T2_def alarm_T5_def)

lemma simulate_temperature_changes_closed:
  "simulate_temperature_changes env s =
     s\<lparr>T1 := max 0 (min 36 (T1 s + 0.05 * randn_t1 env)),
       T4 := max 36 (min 53 (T4 s + 0.05 * randn_t4 env)),
       heat_exchanger_efficiency := 0.85 * max 0.6 (1 - (operating_hours s / 10000))\<rparr>"
  by (simp add: simulate_temperature_changes_def Let_def)

subsection \<open>Attributes a function leaves alone\<close>

lemma calculate_t5_keeps:
  "T1 (calculate_t5 s) = T1 s"
  "T4 (calculate_t5 s) = T4 s"
  "DP1 (calculate_t5 s) = DP1 s"
  "user_input_mode (calculate_t5 s) = user_input_mode s"
  "simulation_mode (calculate_t5 s) = simulation_mode s"
  "data_log (calculate_t5 s) = data_log s"
  "time_data (calculate_t5 s) = time_data s"
  "fw_pump_count (calculate_t5 s) = fw_pump_count s"
  "sw_pump_count (calculate_t5 s) = sw_pump_count s"
  "engine_load (calculate_t5 s) = engine_load s"
  "fw_pump_freq (calculate_t5 s) = fw_pump_freq s"
  "sw_pump_freq (calculate_t5 s) = sw_pump_freq s"
  "m_FW (calculate_t5 s) = m_FW s"
  "m_SW (calculate_t5 s) = m_SW s"
  "sw_mem (calculate_t5 s) = sw_mem s"
  by (simp_all add: calculate_t5_closed)

lemma update_flow_rates_keeps:
  "T1 (update_flow_rates s) = T1 s"
  "T2 (update_flow_rates s) = T2 s"
  "T4 (update_flow_rates s) = T4 s"
  "T5 (update_flow_rates s) = T5 s"
  "DP1 (update_flow_rates s) = DP1 s"
  "user_input_mode (update_flow_rates s) = user_input_mode s"
  "simulation_mode (update_flow_rates s) = simulation_mode s"
  "data_log (update_flow_rates s) = data_log s"
  "time_data (update_flow_rates s) = time_data s"
  "fw_pump_count (update_flow_rates s) = fw_pump_count s"
  "sw_pump_count (update_flow_rates s) = sw_pump_count s"
  "engine_load (update_flow_rates s) = engine_load s"
  "fw_pump_freq (update_flow_rates s) = fw_pump_freq s"
  "sw_pump_freq (update_flow_rates s) = sw_pump_freq s"
  "sw_mem (update_flow_rates s) = sw_mem s"
  by (simp_all add: update_flow_rates_closed)

lemma update_heat_exchanger_efficiency_keeps:
  "T1 (update_heat_exchanger_efficiency s) = T1 s"
  "T2 (update_heat_exchanger_efficiency s) = T2 s"
  "T4 (update_heat_exchanger_efficiency s) = T4 s"
  "T5 (update_heat_exchanger_efficiency s) = T5 s"
  "DP1 (update_heat_exchanger_efficiency s) = DP1 s"
  "user_input_mode (update_heat_exchanger_efficiency s) = user_input_mode s"
  "simulation_mode (update_heat_exchanger_efficiency s) = simulation_mode s"
  "data_log (update_heat_exchanger_efficiency s) = data_log s"
  "time_data (update_heat_exchanger_efficiency s) = time_data s"
  "fw_pump_count (update_heat_exchanger_efficiency s) = fw_pump_count s"
  "sw_pump_count (update_heat_exchanger_efficiency s) = sw_pump_count s"
  "engine_load (update_heat_exchanger_efficiency s) = engine_load s"
  "fw_pump_freq (update_heat_exchanger_efficiency s) = fw_pump_freq s"
  "sw_pump_freq (update_heat_exchanger_efficiency s) = sw_pump_freq s"
  "m_FW (update_heat_exchanger_efficiency s) = m_FW s"
  "m_SW (update_heat_exchanger_efficiency s) = m_SW s"
  "sw_mem (update_heat_exchanger_efficiency s) = sw_mem s"
  by (simp_all add: update_heat_exchanger_efficiency_def)

lemma adjust_fw_pump_frequency_keeps:
  "T1 (adjust_fw_pump_frequency now s) = T1 s"
  "T2 (adjust_fw_pump_frequency now s) = T2 s"
  "T4 (adjust_fw_pump_frequency now s) = T4 s"
  "T5 (adjust_fw_pump_frequency now s) = T5 s"
  "DP1 (adjust_fw_pump_frequency now s) = DP1 s"
  "user_input_mode (adjust_fw_pump_frequency now s) = user_input_mode s"
  "simulation_mode (adjust_fw_pump_frequency now s) = simulation_mode s"
  "data_log (adjust_fw_pump_frequency now s) = data_log s"
  "time_data (adjust_fw_pump_frequency now s) = time_data s"
  "fw_pump_count (adjust_fw_pump_frequency now s) = fw_pump_count s"
  "sw_pump_count (adjust_fw_pump_frequency now s) = sw_pump_count s"
  "engine_load (adjust_fw_pump_frequency now s) = engine_load s"
  "sw_pump_freq (adjust_fw_pump_frequency now s) = sw_pump_freq s"
  "m_FW (adjust_fw_pump_frequency now s) = m_FW s"
  "m_SW (adjust_fw_pump_frequency now s) = m_SW s"
  "sw_mem (adjust_fw_pump_frequency now s) = sw_mem s"
  by (simp_all add: adjust_fw_pump_frequency_closed)

lemma adjust_sw_pump_frequency_keeps:
  "T1 (adjust_sw_pump_frequency now s) = T1 s"
  "T2 (adjust_sw_pump_frequency now s) = T2 s"
  "T4 (adjust_sw_pump_frequency now s) = T4 s"
  "T5 (adjust_sw_pump_frequency now s) = T5 s"
  "DP1 (adjust_sw_pump_frequency now s) = DP1 s"
  "user_input_mode (adjust_sw_pump_frequency now s) = user_input_mode s"
  "simulation_mode (adjust_sw_pump_frequency now s) = simulation_mode s"
  "data_log (adjust_sw_pump_frequency now s) = data_log s"
  "time_data (adjust_sw_pump_frequency now s) = time_data s"
  "fw_pump_count (adjust_sw_pump_frequency now s) = fw_pump_count s"
  "sw_pump_count (adjust_sw_pump_frequency now s) = sw_pump_count s"
  "engine_load (adjust_sw_pump_frequency now s) = engine_load s"
  "fw_pump_freq (adjust_sw_pump_frequency now s) = fw_pump_freq s"
  "m_FW (adjust_sw_pump_frequency now s) = m_FW s"
  "m_SW (adjust_sw_pump_frequency now s) = m_SW s"
  by (simp_all add: adjust_sw_pump_frequency_closed)

lemma adjust_pump_count_by_load_keeps:
  "T1 (adjust_pump_count_by_load s) = T1 s"
  "T2 (adjust_pump_count_by_load s) = T2 s"
  "T4 (adjust_pump_count_by_load s) = T4 s"
  "T5 (adjust_pump_count_by_load s) = T5 s"
  "DP1 (adjust_pump_count_by_load s) = DP1 s"
  "user_input_mode (adjust_pump_count_by_load s) = user_input_mode s"
  "simulation_mode (adjust_pump_count_by_load s) = simulation_mode s"
  "data_log (adjust_pump_count_by_load s) = data_log s"
  "time_data (adjust_pump_count_by_load s) = time_data s"
  "engine_load (adjust_pump_count_by_load s) = engine_load s"
  "m_FW (adjust_pump_count_by_load s) = m_FW s"
  "m_SW (adjust_pump_count_by_load s) = m_SW s"
  "sw_mem (adjust_pump_count_by_load s) = sw_mem s"
  by (simp_all add: adjust_pump_count_by_load_closed)

lemma check_alarm_conditions_keeps:
  "T1 (check_alarm_conditions s) = T1 s"
  "T2 (check_alarm_conditions s) = T2 s"
  "T4 (check_alarm_conditions s) = T4 s"
  "T5 (check_alarm_conditions s) = T5 s"
  "DP1 (check_alarm_conditions s) = DP1 s"
  "user_input_mode (check_alarm_conditions s) = user_input_mode s"
  "simulation_mode (check_alarm_conditions s) = simulation_mode s"
  "data_log (check_alarm_conditions s) = data_log s"
  "time_data (check_alarm_conditions s) = time_data s"
  "fw_pump_count (check_alarm_conditions s) = fw_pump_count s"
  "sw_pump_count (check_alarm_conditions s) = sw_pump_count s"
  "engine_load (check_alarm_conditions s) = engine_load s"
  "fw_pump_freq (check_alarm_conditions s) = fw_pump_freq s"
  "sw_pump_freq (check_alarm_conditions s) = sw_pump_freq s"
  "m_FW (check_alarm_conditions s) = m_FW s"
  "m_SW (check_alarm_conditions s) = m_SW s"
  "sw_mem (check_alarm_conditions s) = sw_mem s"
  by (simp_all add: check_alarm_conditions_closed)

lemma simulate_temperature_changes_keeps:
  "T2 (simulate_temperature_changes env s) = T2 s"
  "T5 (simulate_temperature_changes env s) = T5 s"
  "DP1 (simulate_temperature_changes env s) = DP1 s"
  "user_input_mode (simulate_temperature_changes env s) = user_input_mode s"
  "simulation_mode (simulate_temperature_changes env s) = simulation_mode s"
  "data_log (simulate_temperature_changes env s) = data_log s"
  "time_data (simulate_temperature_changes env s) = time_data s"
  "fw_pump_count (simulate_temperature_changes env s) = fw_pump_count s"
  "sw_pump_count (simulate_temperature_changes env s) = sw_pump_count s"
  "engine_load (simulate_temperature_changes env s) = engine_load s"
  "fw_pump_freq (simulate_temperature_changes env s) = fw_pump_freq s"
  "sw_pump_freq (simulate_temperature_changes env s) = sw_pump_freq s"
  "m_FW (simulate_temperature_changes env s) = m_FW s"
  "m_SW (simulate_temperature_changes env s) = m_SW s"
  "sw_mem (simulate_temperature_changes env s) = sw_mem s"
  by (simp_all add: simulate_temperature_changes_closed)

lemma append_series_keeps:
  "T1 (append_series t s) = T1 s"
  "T2 (append_series t s) = T2 s"
  "T4 (append_series t s) = T4 s"
  "T5 (append_series t s) = T5 s"
  "DP1 (append_series t s) = DP1 s"
  "user_input_mode (append_series t s) = user_input_mode s"
  "simulation_mode (append_series t s) = simulation_mode s"
  "data_log (append_series t s) = data_log s"
  "fw_pump_count (append_series t s) = fw_pump_count s"
  "sw_pump_count (append_series t s) = sw_pump_count s"
  "engine_load (append_series t s) = engine_load s"
  "fw_pump_freq (append_series t s) = fw_pump_freq s"
  "sw_pump_freq (append_series t s) = sw_pump_freq s"
  "m_FW (append_series t s) = m_FW s"
  "m_SW (append_series t s) = m_SW s"
  "sw_mem (append_series t s) = sw_mem s"
  by (simp_all add: append_series_def)

lemma append_data_log_keeps:
  "T1 (append_data_log t s) = T1 s"
  "T2 (append_data_log t s) = T2 s"
  "T4 (append_data_log t s) = T4 s"
  "T5 (append_data_log t s) = T5 s"
  "DP1 (append_data_log t s) = DP1 s"
  "user_input_mode (append_data_log t s) = user_input_mode s"
  "simulation_mode (append_data_log t s) = simulation_mode s"
  "time_data (append_data_log t s) = time_data s"
  "fw_pump_count (append_data_log t s) = fw_pump_count s"
  "sw_pump_count (append_data_log t s) = sw_pump_count s"
  "engine_load (append_data_log t s) = engine_load s"
  "fw_pump_freq (append_data_log t s) = fw_pump_freq s"
  "sw_pump_freq (append_data_log t s) = sw_pump_freq s"
  "m_FW (append_data_log t s) = m_FW s"
  "m_SW (append_data_log t s) = m_SW s"
  "sw_mem (append_data_log t s) = sw_mem s"
  by (simp_all add: append_data_log_def Let_def)

lemma limit_data_size_keeps:
  "T1 (limit_data_size s) = T1 s"
  "T2 (limit_data_size s) = T2 s"
  "T4 (limit_data_size s) = T4 s"
  "T5 (limit_data_size s) = T5 s"
  "DP1 (limit_data_size s) = DP1 s"
  "user_input_mode (limit_data_size s) = user_input_mode s"
  "simulation_mode (limit_data_size s) = simulation_mode s"
  "data_log (limit_data_size s) = data_log s"
  "fw_pump_count (limit_data_size s) = fw_pump_count s"
  "sw_pump_count (limit_data_size s) = sw_pump_count s"
  "engine_load (limit_data_size s) = engine_load s"
  "fw_pump_freq (limit_data_size s) = fw_pump_freq s"
  "sw_pump_freq (limit_data_size s) = sw_pump_freq s"
  "m_FW (limit_data_size s) = m_FW s"
  "m_SW (limit_data_size s) = m_SW s"
  "sw_mem (limit_data_size s) = sw_mem s"
  by (simp_all add: limit_data_size_def Let_def)

lemma refinement_loop_keeps:
  "T1 (refinement_loop n s) = T1 s"
  "T4 (refinement_loop n s) = T4 s"
  "DP1 (refinement_loop n s) = DP1 s"
  "user_input_mode (refinement_loop n s) = user_input_mode s"
  "simulation_mode (refinement_loop n s) = simulation_mode s"
  "data_log (refinement_loop n s) = data_log s"
  "time_data (refinement_loop n s) = time_data s"
  "fw_pump_count (refinement_loop n s) = fw_pump_count s"
  "sw_pump_count (refinement_loop n s) = sw_pump_count s"
  "engine_load (refinement_loop n s) = engine_load s"
  "fw_pump_freq (refinement_loop n s) = fw_pump_freq s"
  "sw_pump_freq (refinement_loop n s) = sw_pump_freq s"
  "m_FW (refinement_loop n s) = m_FW s"
  "m_SW (refinement_loop n s) = m_SW s"
  "sw_mem (refinement_loop n s) = sw_mem s"
  by (simp_all add: refinement_loop_cases calculate_t5_keeps)

lemmas stage_keeps =
  check_alarm_conditions_keeps adjust_pump_count_by_load_keeps adjust_sw_pump_frequency_keeps
  adjust_fw_pump_frequency_keeps update_heat_exchanger_efficiency_keeps update_flow_rates_keeps

section \<open>Properties of the fresh-water controller\<close>

lemma adjust_fw_pump_frequency_freq:
  "fw_pump_freq (adjust_fw_pump_frequency now s) =
     max 40 (min 60 (if T4 s - 36 \<ge> 17 then 60 else if T4 s - 36 \<le> 0 then 40
                     else 40 + ((T4 s - 36) / 17) * 20))"
  by (simp add: adjust_fw_pump_frequency_def Let_def)

lemma fw_law_clamped: "fw_law d = max 40 (min 60 (40 + (d / 17) * 20))"
  by (simp add: fw_law_def max_def min_def)

lemma fw_law_range: "40 \<le> fw_law d \<and> fw_law d \<le> 60"
  by (simp add: fw_law_clamped)

lemma fw_law_continuous: "continuous_on UNIV fw_law"
proof -
  have eq: "fw_law = (\<lambda>d. max 40 (min 60 (40 + (d / 17) * 20)))"
    by (rule ext) (rule fw_law_clamped)
  show ?thesis
    unfolding eq by (intro continuous_intros) simp
qed

lemma fw_law_mono: "mono fw_law"
proof (rule monoI)
  fix x y :: real
  assume "x \<le> y"
  then have "40 + (x / 17) * 20 \<le> 40 + (y / 17) * 20" by simp
  then show "fw_law x \<le> fw_law y"
    unfolding fw_law_clamped by (meson max.mono min.mono order_refl)
qed

lemma adjust_fw_pump_frequency_fw_law:
  "fw_pump_freq (adjust_fw_pump_frequency now s) = fw_law (T4 s - 36)"
  unfolding adjust_fw_pump_frequency_freq fw_law_def
  by (simp add: max_def min_def)

text \<open>
  Claim C5. For every \<open>T4\<close> the fresh-water controller commits the frequency given by
  the law of \<open>\<Delta> = T4 - 36\<close> (60 Hz when \<open>\<Delta> \<ge> 17\<close>, 40 Hz when \<open>\<Delta> \<le> 0\<close>,
  \<open>40 + (\<Delta>/17)\<cdot>20\<close> otherwise), whatever the previous frequency and the clock are; the
  committed frequency lies in \<open>[40, 60]\<close> and, as a function of \<open>\<Delta>\<close>, is continuous,
  monotonically nondecreasing, and flat outside \<open>[0, 17]\<close>.
\<close>

theorem adjust_fw_pump_frequency_law:
  "fw_pump_freq (adjust_fw_pump_frequency now s) = fw_law (T4 s - 36)
   \<and> 40 \<le> fw_pump_freq (adjust_fw_pump_frequency now s)
   \<and> fw_pump_freq (adjust_fw_pump_frequency now s) \<le> 60
   \<and> continuous_on UNIV (\<lambda>d. fw_pump_freq (adjust_fw_pump_frequency now (s\<lparr>T4 := 36 + d\<rparr>)))
   \<and> mono (\<lambda>d. fw_pump_freq (adjust_fw_pump_frequency now (s\<lparr>T4 := 36 + d\<rparr>)))
   \<and> (\<forall>d. d \<le> 0 \<longrightarrow> fw_pump_freq (adjust_fw_pump_frequency now (s\<lparr>T4 := 36 + d\<rparr>)) = 40)
   \<and> (\<forall>d. d \<ge> 17 \<longrightarrow> fw_pump_freq (adjust_fw_pump_frequency now (s\<lparr>T4 := 36 + d\<rparr>)) = 60)"
proof -
  have fn: "\<And>d. fw_pump_freq (adjust_fw_pump_frequency now (s\<lparr>T4 := 36 + d\<rparr>)) = fw_law d"
    by (simp add: adjust_fw_pump_frequency_fw_law)
  have flat: "(\<forall>d. d \<le> 0 \<longrightarrow> fw_law d = 40) \<and> (\<forall>d. d \<ge> 17 \<longrightarrow> fw_law d = 60)"
    by (simp add: fw_law_def)
  show ?thesis
    using fw_law_range [of "T4 s - 36"] fw_law_continuous fw_law_mono flat
    by (simp only: fn adjust_fw_pump_frequency_fw_law) simp
qed

text \<open>
  The theorem at \<open>T4 = 38\<close>, where \<open>\<Delta> = 2\<close> and the frequency is \<open>40 + (2/17)\<cdot>20 = 720/17\<close>,
  and at the two ends of the ramp.
\<close>

theorem adjust_fw_pump_frequency_law_witness:
  "fw_pump_freq (adjust_fw_pump_frequency 0 ((init_controller 0)\<lparr>T4 := 38\<rparr>)) = 720 / 17
   \<and> fw_pump_freq (adjust_fw_pump_frequency 0 ((init_controller 0)\<lparr>T4 := 36 + 0\<rparr>)) = 40
   \<and> fw_pump_freq (adjust_fw_pump_frequency 0 ((init_controller 0)\<lparr>T4 := 36 + 17\<rparr>)) = 60"
  using adjust_fw_pump_frequency_law [of 0 "(init_controller 0)\<lparr>T4 := 38\<rparr>"]
  by (simp add: adjust_fw_pump_frequency_fw_law fw_law_def init_controller_fields)

section \<open>Properties of double-precision rounding\<close>

text \<open>Rounding moves a number by at most half the spacing, which is small against the number.\<close>

lemma round_to_even_near: "\<bar>of_int (round_to_even y) - y\<bar> \<le> 1 / 2"
proof -
  define r where "r = y - of_int \<lfloor>y\<rfloor>"
  have r: "0 \<le> r" "r < 1" unfolding r_def by linarith+
  have "of_int (round_to_even y) - y = - r \<or> of_int (round_to_even y) - y = 1 - r"
    unfolding round_to_even_def Let_def r_def by auto
  moreover have "of_int (round_to_even y) - y = - r" if "r < 1 / 2"
    using that unfolding round_to_even_def Let_def r_def by simp
  moreover have "of_int (round_to_even y) - y = 1 - r" if "r > 1 / 2"
    using that unfolding round_to_even_def Let_def r_def by simp
  ultimately show ?thesis using r by (cases "r < 1 / 2"; cases "r > 1 / 2") auto
qed

lemma quantum_search_pos: "0 < q \<Longrightarrow> 0 < quantum_search n q a"
  by (induction n arbitrary: q) auto

lemma quantum_search_cases:
  "quantum_search n q a * 2 ^ 52 \<le> a \<or> quantum_search n q a = q / 2 ^ n"
proof (induction n arbitrary: q)
  case 0
  show ?case by simp
next
  case (Suc n)
  show ?case
  proof (cases "q * 2 ^ 52 \<le> a")
    case True
    then show ?thesis by simp
  next
    case False
    have "quantum_search n (q / 2) a * 2 ^ 52 \<le> a
        \<or> quantum_search n (q / 2) a = q / 2 / 2 ^ n"
      by (rule Suc.IH)
    then show ?thesis using False by auto
  qed
qed

lemma double_quantum_pos: "0 < double_quantum a"
  by (simp add: double_quantum_def quantum_search_pos)

lemma double_quantum_small: "0 \<le> a \<Longrightarrow> double_quantum a \<le> (a + 1) / 2 ^ 52"
proof -
  assume a: "0 \<le> a"
  consider "double_quantum a * 2 ^ 52 \<le> a" | "double_quantum a = 2 ^ 971 / 2 ^ 2045"
    using quantum_search_cases [of 2045 "2 ^ 971" a] by (auto simp: double_quantum_def)
  then show ?thesis
  proof cases
    case 1
    then have "double_quantum a * 2 ^ 52 \<le> a + 1" by simp
    then show ?thesis by (simp add: pos_le_divide_eq)
  next
    case 2
    have "(2::real) ^ 2045 = 2 ^ 971 * 2 ^ 1074"
      by (simp flip: power_add)
    then have "(2::real) ^ 971 / 2 ^ 2045 = 1 / 2 ^ 1074" by simp
    also have "\<dots> \<le> 1 / 2 ^ 52"
      by (intro divide_left_mono power_increasing) simp_all
    also have "\<dots> \<le> (a + 1) / 2 ^ 52"
      using a by (intro divide_right_mono) simp_all
    finally show ?thesis using 2 by simp
  qed
qed

lemma double_round_near: "\<bar>double_round x - x\<bar> \<le> (\<bar>x\<bar> + 1) / 2 ^ 53"
proof -
  define q where "q = double_quantum \<bar>x\<bar>"
  have q: "0 < q" "q \<le> (\<bar>x\<bar> + 1) / 2 ^ 52"
    unfolding q_def by (rule double_quantum_pos, rule double_quantum_small) simp
  have "double_round x - x = (of_int (round_to_even (x / q)) - x / q) * q"
    using q(1) by (simp add: double_round_def Let_def q_def [symmetric] algebra_simps)
  then have "\<bar>double_round x - x\<bar> = \<bar>of_int (round_to_even (x / q)) - x / q\<bar> * q"
    using q(1) by (simp add: abs_mult)
  also have "\<dots> \<le> (1 / 2) * q"
    using q(1) round_to_even_near [of "x / q"] by (intro mult_right_mono) simp_all
  also have "\<dots> \<le> (1 / 2) * ((\<bar>x\<bar> + 1) / 2 ^ 52)"
    using q(2) by simp
  finally show ?thesis by simp
qed

lemma double_literal_0_05:
  "\<bar>double_round 0.05 - 1 / 20\<bar> \<le> 1 / 1000000"
proof -
  have "\<bar>double_round 0.05 - 0.05\<bar> \<le> (\<bar>0.05\<bar> + 1) / 2 ^ 53"
    by (rule double_round_near)
  also have "\<dots> \<le> 1 / 1000000" by simp
  finally show ?thesis by simp
qed

lemma double_round_near_1000:
  assumes "\<bar>x\<bar> \<le> 1001"
  shows "\<bar>double_round x - x\<bar> \<le> 1 / 1000000"
proof -
  have "\<bar>double_round x - x\<bar> \<le> (\<bar>x\<bar> + 1) / 2 ^ 53"
    by (rule double_round_near)
  also have "\<dots> \<le> 1002 / 2 ^ 53"
    using assms by (intro divide_right_mono) simp_all
  also have "\<dots> \<le> 1 / 1000000" by simp
  finally show ?thesis .
qed

text \<open>
  The two limits of the deadband lie within a thousandth of \<open>p + 0.05\<close> and \<open>p - 0.05\<close>,
  which decides the tests away from the edge.
\<close>

lemma deadband_limits:
  assumes "\<bar>p\<bar> \<le> 1000"
  shows "\<bar>double_add p (double_round 0.05) - (p + 1 / 20)\<bar> \<le> 1 / 1000"
    and "\<bar>double_sub p (double_round 0.05) - (p - 1 / 20)\<bar> \<le> 1 / 1000"
proof -
  define c where "c = double_round 0.05"
  have c: "\<bar>c - 1 / 20\<bar> \<le> 1 / 1000000"
    unfolding c_def by (rule double_literal_0_05)
  have "\<bar>p + c\<bar> \<le> 1001" using assms c by linarith
  then have a: "\<bar>double_round (p + c) - (p + c)\<bar> \<le> 1 / 1000000"
    by (rule double_round_near_1000)
  have "\<bar>p - c\<bar> \<le> 1001" using assms c by linarith
  then have s: "\<bar>double_round (p - c) - (p - c)\<bar> \<le> 1 / 1000000"
    by (rule double_round_near_1000)
  show "\<bar>double_add p (double_round 0.05) - (p + 1 / 20)\<bar> \<le> 1 / 1000"
    unfolding double_add_def c_def [symmetric] using a c by linarith
  show "\<bar>double_sub p (double_round 0.05) - (p - 1 / 20)\<bar> \<le> 1 / 1000"
    unfolding double_sub_def c_def [symmetric] using s c by linarith
qed

lemma deadband_tests:
  assumes "\<bar>p\<bar> \<le> 1000"
  shows "p + 3 / 50 \<le> t \<Longrightarrow> t > double_add p (double_round 0.05)"
    and "t \<le> p + 1 / 25 \<Longrightarrow> \<not> t > double_add p (double_round 0.05)"
    and "t \<le> p - 3 / 50 \<Longrightarrow> t < double_sub p (double_round 0.05)"
    and "p - 1 / 25 \<le> t \<Longrightarrow> \<not> t < double_sub p (double_round 0.05)"
  using deadband_limits [OF assms] by linarith+

text \<open>At a given number the spacing, and with it the rounded value, can be computed.\<close>

lemma quantum_search_exact:
  "k \<le> n \<Longrightarrow> 0 < q \<Longrightarrow> (q / 2 ^ k) * 2 ^ 52 \<le> a \<Longrightarrow> a < (q / 2 ^ k) * 2 ^ 53 \<Longrightarrow>
     quantum_search n q a = q / 2 ^ k"
proof (induction n arbitrary: q k)
  case 0
  then show ?case by simp
next
  case (Suc n)
  show ?case
  proof (cases "q * 2 ^ 52 \<le> a")
    case True
    have "k = 0"
    proof (rule ccontr)
      assume "k \<noteq> 0"
      then have "(2::real) \<le> 2 ^ k" using power_increasing [of 1 k "2::real"] by simp
      then have "q / 2 ^ k \<le> q / 2"
        using Suc.prems(2) by (intro divide_left_mono) simp_all
      then have "(q / 2 ^ k) * 2 ^ 53 \<le> (q / 2) * 2 ^ 53"
        by (intro mult_right_mono) simp_all
      then show False using Suc.prems(4) True by simp
    qed
    then show ?thesis using True by simp
  next
    case False
    then have "k \<noteq> 0" using Suc.prems(3) by (cases k) auto
    then obtain j where j: "k = Suc j" by (cases k) auto
    have "quantum_search n (q / 2) a = q / 2 / 2 ^ j"
      using Suc.prems j by (intro Suc.IH) simp_all
    then show ?thesis using False j by simp
  qed
qed

lemma double_quantum_exact:
  assumes "k \<le> 2045" and "q * 2 ^ k = 2 ^ 971" and "q * 2 ^ 52 \<le> a" and "a < q * 2 ^ 53"
  shows "double_quantum a = q"
proof -
  have q: "q = 2 ^ 971 / 2 ^ k" using assms(2) by (simp add: field_simps)
  have "quantum_search 2045 (2 ^ 971) a = 2 ^ 971 / 2 ^ k"
    using assms(1,3,4) unfolding q by (intro quantum_search_exact) simp_all
  then show ?thesis by (simp add: double_quantum_def q)
qed

lemma double_quantum_fraction:
  assumes "j \<le> 1074" and "2 ^ 52 / 2 ^ j \<le> a" and "a < 2 ^ 53 / 2 ^ j"
  shows "double_quantum a = 1 / 2 ^ j"
proof (rule double_quantum_exact [where k = "971 + j"])
  show "971 + j \<le> 2045" using assms(1) by simp
  show "1 / 2 ^ j * 2 ^ (971 + j) = (2::real) ^ 971" by (simp add: power_add)
  show "1 / 2 ^ j * 2 ^ 52 \<le> a" using assms(2) by simp
  show "a < 1 / 2 ^ j * 2 ^ 53" using assms(3) by simp
qed

lemma round_to_even_below_half:
  "of_int n \<le> y \<Longrightarrow> y < of_int n + 1 / 2 \<Longrightarrow> round_to_even y = n"
proof -
  assume a: "of_int n \<le> y" "y < of_int n + 1 / 2"
  then have "\<lfloor>y\<rfloor> = n" by linarith
  then show ?thesis using a by (simp add: round_to_even_def Let_def)
qed

lemma round_to_even_above_half:
  "of_int n - 1 / 2 < y \<Longrightarrow> y < of_int n \<Longrightarrow> round_to_even y = n"
proof -
  assume a: "of_int n - 1 / 2 < y" "y < of_int n"
  then have "\<lfloor>y\<rfloor> = n - 1" by linarith
  then show ?thesis using a by (simp add: round_to_even_def Let_def)
qed

lemma double_round_eval:
  "double_quantum \<bar>x\<bar> = q \<Longrightarrow> round_to_even (x / q) = n \<Longrightarrow> double_round x = of_int n * q"
  by (simp add: double_round_def Let_def)

text \<open>
  The literal \<^verbatim>\<open>0.05\<close> is the float \<open>3602879701896397 / 2 ^ 56\<close>, and the float
  \<open>27.1\<close> minus it rounds to the float \<open>27.05\<close>.
\<close>

lemma double_round_0_05: "double_round 0.05 = 3602879701896397 / 72057594037927936"
proof -
  have q: "double_quantum \<bar>0.05\<bar> = 1 / 2 ^ 57"
    by (rule double_quantum_fraction) simp_all
  have n: "round_to_even (0.05 / (1 / 2 ^ 57)) = 7205759403792794"
    by (rule round_to_even_above_half) simp_all
  have "double_round 0.05 = of_int 7205759403792794 * (1 / 2 ^ 57)"
    using q n by (rule double_round_eval)
  then show ?thesis by simp
qed

lemma double_sub_edge:
  "double_sub (3813985934429389 / 140737488355328) (double_round 0.05)
     = 7613898120023245 / 281474976710656"
proof -
  define x :: real
    where "x = 3813985934429389 / 140737488355328 - 3602879701896397 / 72057594037927936"
  have q: "double_quantum \<bar>x\<bar> = 1 / 2 ^ 48"
    unfolding x_def by (rule double_quantum_fraction) simp_all
  have n: "round_to_even (x / (1 / 2 ^ 48)) = 7613898120023245"
    unfolding x_def by (rule round_to_even_below_half) simp_all
  have "double_round x = of_int 7613898120023245 * (1 / 2 ^ 48)"
    using q n by (rule double_round_eval)
  then have "double_round x = 7613898120023245 / 281474976710656" by simp
  then show ?thesis unfolding double_sub_def double_round_0_05 x_def .
qed

section \<open>Properties of the sea-water controller\<close>

subsection \<open>The direction test\<close>

lemma sw_current_direction_up:
  "\<bar>prev_t5 m\<bar> \<le> 1000 \<Longrightarrow> prev_t5 m + 3 / 50 \<le> t5 \<Longrightarrow> sw_current_direction t5 m = Some Up"
  using deadband_tests(1) [of "prev_t5 m" t5] by (simp add: sw_current_direction_def)

lemma sw_current_direction_down:
  "\<bar>prev_t5 m\<bar> \<le> 1000 \<Longrightarrow> t5 \<le> prev_t5 m - 3 / 50 \<Longrightarrow> sw_current_direction t5 m = Some Down"
  using deadband_tests(2) [of "prev_t5 m" t5] deadband_tests(3) [of "prev_t5 m" t5]
  by (simp add: sw_current_direction_def)

lemma sw_current_direction_keep:
  assumes "\<bar>prev_t5 m\<bar> \<le> 1000" and "\<bar>t5 - prev_t5 m\<bar> \<le> 1 / 25"
  shows "sw_current_direction t5 m = t5_direction m"
proof -
  have hi: "t5 \<le> prev_t5 m + 1 / 25" and lo: "prev_t5 m - 1 / 25 \<le> t5"
    using assms(2) by linarith+
  have "\<not> t5 > double_add (prev_t5 m) (double_round 0.05)"
    using assms(1) hi by (rule deadband_tests(2))
  moreover have "\<not> t5 < double_sub (prev_t5 m) (double_round 0.05)"
    using assms(1) lo by (rule deadband_tests(4))
  ultimately show ?thesis by (simp add: sw_current_direction_def)
qed

text \<open>
  At the edge state the source keeps the direction: \<open>T5\<close> is not below the rounded
  difference, which is \<open>T5\<close> itself.
\<close>

lemma deadband_edge_tests:
  "\<not> 7613898120023245 / 281474976710656
       > double_add (3813985934429389 / 140737488355328) (double_round 0.05)"
  "\<not> 7613898120023245 / 281474976710656
       < double_sub (3813985934429389 / 140737488355328) (double_round 0.05)"
proof -
  show "\<not> 7613898120023245 / 281474976710656
       > double_add (3813985934429389 / 140737488355328) (double_round 0.05)"
    by (rule deadband_tests(2)) simp_all
  show "\<not> 7613898120023245 / 281474976710656
       < double_sub (3813985934429389 / 140737488355328) (double_round 0.05)"
    unfolding double_sub_edge by simp
qed

lemma sw_current_direction_edge:
  "sw_current_direction (7613898120023245 / 281474976710656)
     \<lparr>sw_base_freq = 60, prev_t5 = 3813985934429389 / 140737488355328,
       t5_direction = d, last_adjustment = a\<rparr> = d"
  using deadband_edge_tests by (simp add: sw_current_direction_def)

subsection \<open>What a call assigns\<close>

lemma sw_first_call_keeps:
  "T5 (fst (sw_first_call s)) = T5 s"
  "sw_mem (fst (sw_first_call s)) = Some (snd (sw_first_call s))"
  by (simp_all add: sw_first_call_def Let_def split: option.splits)

lemma sw_first_call_Some:
  "sw_mem s = Some m \<Longrightarrow> sw_first_call s = (s, m)"
  by (simp add: sw_first_call_def)

lemma sw_first_call_None:
  "sw_mem s = None \<Longrightarrow>
     sw_pump_freq (fst (sw_first_call s)) = 60
     \<and> snd (sw_first_call s)
         = \<lparr>sw_base_freq = 60, prev_t5 = T5 s, t5_direction = None, last_adjustment = None\<rparr>"
  by (simp add: sw_first_call_def Let_def)

lemma adjust_sw_pump_frequency_freq:
  "sw_pump_freq (adjust_sw_pump_frequency now s) =
     max 35 (min 60 (fst (sw_decide (T5 s) (sw_pump_freq (fst (sw_first_call s)))
        (sw_direction_changed (snd (sw_first_call s))
           (sw_current_direction (T5 s) (snd (sw_first_call s))))
        (snd (sw_first_call s)))))"
  by (simp add: adjust_sw_pump_frequency_def Let_def split_beta sw_first_call_keeps)

lemma adjust_sw_pump_frequency_mem:
  "sw_mem (adjust_sw_pump_frequency now s) =
     Some ((snd (sw_decide (T5 s) (sw_pump_freq (fst (sw_first_call s)))
        (sw_direction_changed (snd (sw_first_call s))
           (sw_current_direction (T5 s) (snd (sw_first_call s))))
        (snd (sw_first_call s))))
       \<lparr>prev_t5 := T5 s,
        t5_direction := sw_current_direction (T5 s) (snd (sw_first_call s))\<rparr>)"
  by (simp add: adjust_sw_pump_frequency_def Let_def split_beta sw_first_call_keeps)

lemma sw_decide_step:
  "fst (sw_decide t5 f ch m) = f + 2 \<or> fst (sw_decide t5 f ch m) = f - 2
   \<or> fst (sw_decide t5 f ch m) = f"
  by (simp add: sw_decide_def)

lemma adjust_sw_pump_frequency_last:
  "map_option last_adjustment (sw_mem (adjust_sw_pump_frequency now s)) =
     Some (last_adjustment (snd (sw_decide (T5 s) (sw_pump_freq (fst (sw_first_call s)))
        (sw_direction_changed (snd (sw_first_call s))
           (sw_current_direction (T5 s) (snd (sw_first_call s))))
        (snd (sw_first_call s)))))"
  by (simp add: adjust_sw_pump_frequency_mem)

text \<open>The example states after the first-call block.\<close>

lemma sw_first_state_fields:
  "T5 ((init_controller 0)\<lparr>T5 := x\<rparr>) = x"
  "sw_pump_freq (fst (sw_first_call ((init_controller 0)\<lparr>T5 := x\<rparr>))) = 60"
  "snd (sw_first_call ((init_controller 0)\<lparr>T5 := x\<rparr>))
     = \<lparr>sw_base_freq = 60, prev_t5 = x, t5_direction = None, last_adjustment = None\<rparr>"
  by (simp_all add: sw_first_call_def Let_def init_controller_fields)

lemma sw_reversed_state_fields:
  "T5 sw_reversed_state = 37"
  "sw_pump_freq sw_reversed_state = 50"
  "sw_first_call sw_reversed_state
     = (sw_reversed_state,
        \<lparr>sw_base_freq = 60, prev_t5 = 38, t5_direction = Some Up, last_adjustment = Some Up\<rparr>)"
  by (simp_all add: sw_first_call_def sw_reversed_state_def)

lemma sw_reversed_low_state_fields:
  "T5 sw_reversed_low_state = 33"
  "sw_pump_freq sw_reversed_low_state = 50"
  "sw_first_call sw_reversed_low_state
     = (sw_reversed_low_state,
        \<lparr>sw_base_freq = 60, prev_t5 = 32, t5_direction = Some Down,
          last_adjustment = Some Down\<rparr>)"
  by (simp_all add: sw_first_call_def sw_reversed_low_state_def)

lemma sw_low_state_fields:
  "T5 sw_low_state = 30"
  "sw_pump_freq sw_low_state = 36"
  "sw_first_call sw_low_state
     = (sw_low_state,
        \<lparr>sw_base_freq = 60, prev_t5 = 30, t5_direction = None, last_adjustment = Some Down\<rparr>)"
  by (simp_all add: sw_first_call_def sw_low_state_def)

lemma sw_falling_state_fields:
  "T5 sw_falling_state = 30"
  "sw_pump_freq sw_falling_state = 50"
  "sw_first_call sw_falling_state
     = (sw_falling_state,
        \<lparr>sw_base_freq = 60, prev_t5 = 31, t5_direction = Some Down,
          last_adjustment = Some Down\<rparr>)"
  by (simp_all add: sw_first_call_def sw_falling_state_def)

lemma sw_edge_state_fields:
  "T5 sw_edge_state = 7613898120023245 / 281474976710656"
  "sw_pump_freq sw_edge_state = 58"
  "sw_first_call sw_edge_state
     = (sw_edge_state,
        \<lparr>sw_base_freq = 60, prev_t5 = 3813985934429389 / 140737488355328,
          t5_direction = None, last_adjustment = Some Down\<rparr>)"
  by (simp_all add: sw_first_call_def sw_edge_state_def)

lemmas sw_eval =
  adjust_sw_pump_frequency_freq adjust_sw_pump_frequency_mem
  sw_decide_def sw_direction_changed_def
  sw_current_direction_up sw_current_direction_down sw_current_direction_keep

subsection \<open>The stepping rule\<close>

text \<open>
  Claim C3. Let \<open>f0\<close> be the sea-water frequency and \<open>m0\<close> the memory after the
  first-call block, \<open>cur\<close> the direction of \<open>T5\<close> against \<^verbatim>\<open>prev_t5\<close> with the
  deadband of 0.05 (\<^verbatim>\<open>'up'\<close> when \<open>T5\<close> is above the float \<open>prev_t5 + 0.05\<close>,
  \<^verbatim>\<open>'down'\<close> when it is below the float \<open>prev_t5 - 0.05\<close>, and the previous direction
  inside the deadband), and \<open>changed\<close>
  true when the previous and the current direction are both defined and differ. When
  \<open>T5 > 36\<close> the desired frequency is \<open>f0 + 2\<close> and \<^verbatim>\<open>last_adjustment\<close> becomes
  \<^verbatim>\<open>'up'\<close>, unless \<^verbatim>\<open>last_adjustment\<close> is \<^verbatim>\<open>'up'\<close> and the direction has changed, in
  which case \<open>f0\<close> is held; the mirrored rule with \<^verbatim>\<open>'down'\<close> and \<open>- 2\<close> applies when
  \<open>T5 < 34\<close>; for \<open>34 \<le> T5 \<le> 36\<close> the frequency \<open>f0\<close> is held. The committed
  frequency is the desired one limited to \<open>[35, 60]\<close>, and the memory keeps \<open>T5\<close> and
  \<open>cur\<close>.
\<close>

theorem adjust_sw_pump_frequency_rule:
  fixes s :: controller and now :: real
  defines "f0 \<equiv> sw_pump_freq (fst (sw_first_call s))"
    and "m0 \<equiv> snd (sw_first_call s)"
  defines "cur \<equiv> (if T5 s > double_add (prev_t5 m0) (double_round 0.05) then Some Up
                   else if T5 s < double_sub (prev_t5 m0) (double_round 0.05) then Some Down
                   else t5_direction m0)"
  defines "changed \<equiv> (t5_direction m0 \<noteq> None \<and> cur \<noteq> None \<and> t5_direction m0 \<noteq> cur)"
  defines "desired \<equiv> fst (sw_decide (T5 s) f0 changed m0)"
    and "s' \<equiv> adjust_sw_pump_frequency now s"
  shows "(T5 s > 36 \<and> \<not> (last_adjustment m0 = Some Up \<and> changed) \<longrightarrow>
            desired = f0 + 2
            \<and> map_option last_adjustment (sw_mem s') = Some (Some Up))
       \<and> (T5 s > 36 \<and> last_adjustment m0 = Some Up \<and> changed \<longrightarrow>
            desired = f0
            \<and> map_option last_adjustment (sw_mem s') = Some (Some Up))
       \<and> (T5 s < 34 \<and> \<not> (last_adjustment m0 = Some Down \<and> changed) \<longrightarrow>
            desired = f0 - 2
            \<and> map_option last_adjustment (sw_mem s') = Some (Some Down))
       \<and> (T5 s < 34 \<and> last_adjustment m0 = Some Down \<and> changed \<longrightarrow>
            desired = f0
            \<and> map_option last_adjustment (sw_mem s') = Some (Some Down))
       \<and> (34 \<le> T5 s \<and> T5 s \<le> 36 \<longrightarrow>
            desired = f0
            \<and> map_option last_adjustment (sw_mem s') = Some (last_adjustment m0))
       \<and> sw_pump_freq s' = max 35 (min 60 desired)
       \<and> map_option prev_t5 (sw_mem s') = Some (T5 s)
       \<and> map_option t5_direction (sw_mem s') = Some cur"
proof -
  have cur: "sw_current_direction (T5 s) m0 = cur"
    by (simp add: sw_current_direction_def cur_def)
  have changed: "sw_direction_changed m0 cur = changed"
    by (simp add: sw_direction_changed_def changed_def)
  have freq: "sw_pump_freq s' = max 35 (min 60 desired)"
    unfolding s'_def desired_def adjust_sw_pump_frequency_freq
    by (simp only: f0_def [symmetric] m0_def [symmetric] cur changed)
  have last: "map_option last_adjustment (sw_mem s')
                = Some (last_adjustment (snd (sw_decide (T5 s) f0 changed m0)))"
    unfolding s'_def adjust_sw_pump_frequency_last
    by (simp only: f0_def [symmetric] m0_def [symmetric] cur changed)
  have mem: "map_option prev_t5 (sw_mem s') = Some (T5 s)
           \<and> map_option t5_direction (sw_mem s') = Some cur"
    unfolding s'_def adjust_sw_pump_frequency_mem
    by (simp add: m0_def [symmetric] cur)
  show ?thesis
    unfolding last
    using freq mem by (auto simp: desired_def sw_decide_def)
qed

text \<open>
  The theorem at six states: a first call with \<open>T5 = 37\<close> (step up from 60, limited to
  60), the reversed high state (held at 50), the low state at 36 Hz (step down to 34,
  limited to 35), the reversed low state (held at 50), a first call with \<open>T5 = 35\<close>
  (held at 60), and the edge state, where \<open>T5\<close> has fallen from the float \<open>27.1\<close> to
  the float \<open>27.05\<close>: the direction stays undefined, as in the source, and the step down
  commits 56 Hz.
\<close>

theorem adjust_sw_pump_frequency_rule_witness:
  "sw_pump_freq (adjust_sw_pump_frequency 0 ((init_controller 0)\<lparr>T5 := 37\<rparr>)) = 60
   \<and> map_option last_adjustment (sw_mem (adjust_sw_pump_frequency 0 ((init_controller 0)\<lparr>T5 := 37\<rparr>)))
       = Some (Some Up)
   \<and> sw_pump_freq (adjust_sw_pump_frequency 0 sw_reversed_state) = 50
   \<and> sw_pump_freq (adjust_sw_pump_frequency 0 sw_low_state) = 35
   \<and> map_option last_adjustment (sw_mem (adjust_sw_pump_frequency 0 sw_low_state))
       = Some (Some Down)
   \<and> sw_pump_freq (adjust_sw_pump_frequency 0 sw_reversed_low_state) = 50
   \<and> sw_pump_freq (adjust_sw_pump_frequency 0 ((init_controller 0)\<lparr>T5 := 35\<rparr>)) = 60
   \<and> map_option last_adjustment (sw_mem (adjust_sw_pump_frequency 0 ((init_controller 0)\<lparr>T5 := 35\<rparr>)))
       = Some None
   \<and> sw_pump_freq (adjust_sw_pump_frequency 0 sw_edge_state) = 56
   \<and> map_option t5_direction (sw_mem (adjust_sw_pump_frequency 0 sw_edge_state)) = Some None"
proof -
  have up: "sw_pump_freq (adjust_sw_pump_frequency 0 ((init_controller 0)\<lparr>T5 := 37\<rparr>)) = 60
      \<and> map_option last_adjustment
          (sw_mem (adjust_sw_pump_frequency 0 ((init_controller 0)\<lparr>T5 := 37\<rparr>)))
        = Some (Some Up)"
    using adjust_sw_pump_frequency_rule [where s = "(init_controller 0)\<lparr>T5 := 37\<rparr>" and now = 0]
      deadband_tests(2) [of 37 37] deadband_tests(4) [of 37 37]
    by (simp add: sw_first_state_fields)
  have hold_up: "sw_pump_freq (adjust_sw_pump_frequency 0 sw_reversed_state) = 50"
    using adjust_sw_pump_frequency_rule [where s = sw_reversed_state and now = 0]
      deadband_tests(2) [of 38 37] deadband_tests(3) [of 38 37]
    by (simp add: sw_reversed_state_fields)
  have down: "sw_pump_freq (adjust_sw_pump_frequency 0 sw_low_state) = 35
      \<and> map_option last_adjustment (sw_mem (adjust_sw_pump_frequency 0 sw_low_state))
        = Some (Some Down)"
    using adjust_sw_pump_frequency_rule [where s = sw_low_state and now = 0]
      deadband_tests(2) [of 30 30] deadband_tests(4) [of 30 30]
    by (simp add: sw_low_state_fields)
  have hold_down: "sw_pump_freq (adjust_sw_pump_frequency 0 sw_reversed_low_state) = 50"
    using adjust_sw_pump_frequency_rule [where s = sw_reversed_low_state and now = 0]
      deadband_tests(1) [of 32 33]
    by (simp add: sw_reversed_low_state_fields)
  have dead: "sw_pump_freq (adjust_sw_pump_frequency 0 ((init_controller 0)\<lparr>T5 := 35\<rparr>)) = 60
      \<and> map_option last_adjustment
          (sw_mem (adjust_sw_pump_frequency 0 ((init_controller 0)\<lparr>T5 := 35\<rparr>)))
        = Some None"
    using adjust_sw_pump_frequency_rule [where s = "(init_controller 0)\<lparr>T5 := 35\<rparr>" and now = 0]
      deadband_tests(2) [of 35 35] deadband_tests(4) [of 35 35]
    by (simp add: sw_first_state_fields)
  have edge: "sw_pump_freq (adjust_sw_pump_frequency 0 sw_edge_state) = 56
      \<and> map_option t5_direction (sw_mem (adjust_sw_pump_frequency 0 sw_edge_state)) = Some None"
    using adjust_sw_pump_frequency_rule [where s = sw_edge_state and now = 0]
      deadband_edge_tests
    by (simp add: sw_edge_state_fields sw_decide_def)
  show ?thesis using up hold_up down hold_down dead edge by simp
qed

subsection \<open>Size of a step\<close>

text \<open>
  Claim C4, as stated: after the first-call initialisation every call changes the
  sea-water frequency by exactly \<open>+2\<close>, \<open>-2\<close> or \<open>0\<close> Hz. It fails at the lower limit:
  from 36 Hz with \<open>T5 = 30\<close> the desired frequency is 34 Hz, the limit to \<open>[35, 60]\<close>
  commits 35 Hz, and the change is \<open>-1\<close> Hz.
\<close>

theorem adjust_sw_pump_frequency_step_counterexample:
  "map_option last_adjustment (sw_mem sw_low_state) = Some (Some Down)
   \<and> sw_pump_freq sw_low_state = 36
   \<and> sw_pump_freq (adjust_sw_pump_frequency 0 sw_low_state) = 35
   \<and> sw_pump_freq (adjust_sw_pump_frequency 0 sw_low_state) - sw_pump_freq sw_low_state = - 1"
  by (simp add: sw_eval sw_low_state_fields) (simp add: sw_low_state_def)

text \<open>
  Claim C4, amended: on every call, with \<open>f0\<close> the sea-water frequency after the
  first-call block and \<open>f1\<close> the committed one, \<open>f1\<close> lies in \<open>[35, 60]\<close> and is
  \<open>f0 + 2\<close>, \<open>f0 - 2\<close> or \<open>f0\<close> limited to \<open>[35, 60]\<close>; the change is exactly \<open>+2\<close>,
  \<open>-2\<close> or \<open>0\<close> Hz whenever \<open>37 \<le> f0 \<le> 58\<close>, and at most 2 Hz in magnitude whenever
  \<open>35 \<le> f0 \<le> 60\<close>.
\<close>

theorem adjust_sw_pump_frequency_step:
  fixes s :: controller and now :: real
  defines "f0 \<equiv> sw_pump_freq (fst (sw_first_call s))"
    and "f1 \<equiv> sw_pump_freq (adjust_sw_pump_frequency now s)"
  shows "35 \<le> f1 \<and> f1 \<le> 60
       \<and> (f1 = max 35 (min 60 (f0 + 2)) \<or> f1 = max 35 (min 60 (f0 - 2))
           \<or> f1 = max 35 (min 60 f0))
       \<and> (37 \<le> f0 \<and> f0 \<le> 58 \<longrightarrow> f1 - f0 = 2 \<or> f1 - f0 = - 2 \<or> f1 - f0 = 0)
       \<and> (35 \<le> f0 \<and> f0 \<le> 60 \<longrightarrow> \<bar>f1 - f0\<bar> \<le> 2)"
proof -
  define d where "d = fst (sw_decide (T5 s) f0
        (sw_direction_changed (snd (sw_first_call s))
           (sw_current_direction (T5 s) (snd (sw_first_call s))))
        (snd (sw_first_call s)))"
  have f1: "f1 = max 35 (min 60 d)"
    by (simp add: f1_def f0_def d_def adjust_sw_pump_frequency_freq)
  have d: "d = f0 + 2 \<or> d = f0 - 2 \<or> d = f0"
    unfolding d_def by (rule sw_decide_step)
  show ?thesis
    using d unfolding f1 by auto
qed

text \<open>The amended statement at the falling state: from 50 Hz the call commits 48 Hz.\<close>

theorem adjust_sw_pump_frequency_step_witness:
  "37 \<le> sw_pump_freq (fst (sw_first_call sw_falling_state))
   \<and> sw_pump_freq (fst (sw_first_call sw_falling_state)) \<le> 58
   \<and> sw_pump_freq (adjust_sw_pump_frequency 0 sw_falling_state) = 48
   \<and> sw_pump_freq (adjust_sw_pump_frequency 0 sw_falling_state)
       - sw_pump_freq (fst (sw_first_call sw_falling_state)) = - 2"
  using adjust_sw_pump_frequency_step [where s = sw_falling_state and now = 0]
  by (simp add: sw_eval sw_falling_state_fields)

section \<open>Properties of the alarm monitor\<close>

lemma alarm_stage_keeps:
  "T5 (alarm_T5 s) = T5 s" "T2 (alarm_T5 s) = T2 s" "DP1 (alarm_T5 s) = DP1 s"
  "T5 (alarm_T2 s) = T5 s" "T2 (alarm_T2 s) = T2 s" "DP1 (alarm_T2 s) = DP1 s"
  by (simp_all add: alarm_T5_def alarm_T2_def)

lemma check_alarm_conditions_active:
  "alarm_active (check_alarm_conditions s)
     = (T5 s > 40 \<or> T2 s > 49 \<or> DP1 s < 0.5 \<or> DP1 s > 2.5)"
  by (auto simp add: check_alarm_conditions_def alarm_DP1_def alarm_T2_def alarm_T5_def)

lemma check_alarm_conditions_message:
  "alarm_message (check_alarm_conditions s)
     = (if DP1 s < 0.5 then DP1_low_text (DP1 s)
        else if DP1 s > 2.5 then DP1_high_text (DP1 s)
        else if T2 s > 49 then T2_high_text (T2 s)
        else if T5 s > 40 then T5_high_text (T5 s)
        else Empty_text)"
  by (simp add: check_alarm_conditions_def alarm_DP1_def alarm_T2_def alarm_T5_def)

text \<open>
  Claim C7. After \<^verbatim>\<open>check_alarm_conditions\<close>, \<^verbatim>\<open>alarm_active\<close> is true if and only
  if at least one of \<open>T5 > 40\<close>, \<open>T2 > 49\<close>, \<open>DP1 < 0.5\<close>, \<open>DP1 > 2.5\<close> holds;
  \<^verbatim>\<open>alarm_message\<close> is the message of the last condition that holds in that order; and
  when none holds, \<^verbatim>\<open>alarm_active\<close> is false and the message is empty.
\<close>

theorem check_alarm_conditions_result:
  "alarm_active (check_alarm_conditions s)
     = (T5 s > 40 \<or> T2 s > 49 \<or> DP1 s < 0.5 \<or> DP1 s > 2.5)
   \<and> alarm_message (check_alarm_conditions s)
     = last_true_message
         [(T5 s > 40, T5_high_text (T5 s)), (T2 s > 49, T2_high_text (T2 s)),
          (DP1 s < 0.5, DP1_low_text (DP1 s)), (DP1 s > 2.5, DP1_high_text (DP1 s))]
   \<and> (\<not> (T5 s > 40 \<or> T2 s > 49 \<or> DP1 s < 0.5 \<or> DP1 s > 2.5) \<longrightarrow>
        \<not> alarm_active (check_alarm_conditions s)
        \<and> alarm_message (check_alarm_conditions s) = Empty_text)"
  unfolding check_alarm_conditions_active check_alarm_conditions_message
  by (simp add: last_true_message_def)

text \<open>
  The theorem at \<open>T5 = 40.5\<close> (the fresh-water message), at a state where the first,
  second and fourth conditions hold (the last one wins), and at states with an alarm left
  over from the previous call and no condition holding (the alarm is cleared).
\<close>

theorem check_alarm_conditions_result_witness:
  "alarm_active (check_alarm_conditions ((init_controller 0)\<lparr>T5 := 40.5\<rparr>))
   \<and> alarm_message (check_alarm_conditions ((init_controller 0)\<lparr>T5 := 40.5\<rparr>))
       = T5_high_text 40.5
   \<and> alarm_message (check_alarm_conditions ((init_controller 0)\<lparr>T5 := 41, T2 := 50, DP1 := 3\<rparr>))
       = DP1_high_text 3
   \<and> \<not> alarm_active (check_alarm_conditions ((init_controller 0)\<lparr>alarm_active := True\<rparr>))
   \<and> alarm_message (check_alarm_conditions
        ((init_controller 0)\<lparr>alarm_active := True, alarm_message := T5_high_text 41\<rparr>))
       = Empty_text"
  using check_alarm_conditions_result [of "(init_controller 0)\<lparr>T5 := 40.5\<rparr>"]
    check_alarm_conditions_result [of "(init_controller 0)\<lparr>T5 := 41, T2 := 50, DP1 := 3\<rparr>"]
    check_alarm_conditions_result [of "(init_controller 0)\<lparr>alarm_active := True\<rparr>"]
    check_alarm_conditions_result
      [of "(init_controller 0)\<lparr>alarm_active := True, alarm_message := T5_high_text 41\<rparr>"]
  by (simp add: last_true_message_def init_controller_fields)

section \<open>Properties of the pump-count scheduler\<close>

lemma adjust_pump_count_by_load_counts:
  "fw_pump_count (adjust_pump_count_by_load s)
     = (if engine_load s < 10 then (if fw_pump_count s > 1 then 1 else fw_pump_count s)
        else (if fw_pump_count s < 2 then 2 else fw_pump_count s))"
  "sw_pump_count (adjust_pump_count_by_load s)
     = (if engine_load s < 10 then (if sw_pump_count s > 1 then 1 else sw_pump_count s)
        else (if sw_pump_count s < 2 then 2 else sw_pump_count s))"
  by (simp_all add: adjust_pump_count_by_load_def Let_def)

lemma adjust_pump_count_by_load_freqs:
  "fw_pump_freq (adjust_pump_count_by_load s) = min 60 (fw_pump_freq s)"
  "sw_pump_freq (adjust_pump_count_by_load s) = min 60 (sw_pump_freq s)"
  by (simp_all add: adjust_pump_count_by_load_def Let_def min_def)

text \<open>
  Claim C8. From a state whose two pump counts are 1 or 2, after
  \<^verbatim>\<open>adjust_pump_count_by_load\<close> both counts are 1 if and only if
  \<open>engine_load < 10\<close>, and both are 2 otherwise (so at \<open>engine_load = 10\<close> they are 2);
  each frequency is the minimum of its previous value and 60, so it is lowered when above
  60 and otherwise left as it was, whatever the new count is.
\<close>

theorem adjust_pump_count_by_load_rule:
  assumes "fw_pump_count s \<in> {1, 2}" and "sw_pump_count s \<in> {1, 2}"
  shows "((fw_pump_count (adjust_pump_count_by_load s) = 1
           \<and> sw_pump_count (adjust_pump_count_by_load s) = 1) = (engine_load s < 10))
       \<and> (\<not> engine_load s < 10 \<longrightarrow>
            fw_pump_count (adjust_pump_count_by_load s) = 2
            \<and> sw_pump_count (adjust_pump_count_by_load s) = 2)
       \<and> fw_pump_freq (adjust_pump_count_by_load s) = min 60 (fw_pump_freq s)
       \<and> sw_pump_freq (adjust_pump_count_by_load s) = min 60 (sw_pump_freq s)"
  using assms
  by (auto simp add: adjust_pump_count_by_load_counts adjust_pump_count_by_load_freqs)

text \<open>
  The theorem at \<open>engine_load = 10\<close> with one pump on each side and a fresh-water
  frequency of 61 Hz: both counts become 2 and the frequency 60.
\<close>

theorem adjust_pump_count_by_load_rule_witness:
  "fw_pump_count ((init_controller 0)\<lparr>engine_load := 10, fw_pump_count := 1, sw_pump_count := 1,
        fw_pump_freq := 61\<rparr>) \<in> {1, 2}
   \<and> sw_pump_count ((init_controller 0)\<lparr>engine_load := 10, fw_pump_count := 1, sw_pump_count := 1,
        fw_pump_freq := 61\<rparr>) \<in> {1, 2}
   \<and> fw_pump_count (adjust_pump_count_by_load
        ((init_controller 0)\<lparr>engine_load := 10, fw_pump_count := 1, sw_pump_count := 1,
        fw_pump_freq := 61\<rparr>)) = 2
   \<and> sw_pump_count (adjust_pump_count_by_load
        ((init_controller 0)\<lparr>engine_load := 10, fw_pump_count := 1, sw_pump_count := 1,
        fw_pump_freq := 61\<rparr>)) = 2
   \<and> fw_pump_freq (adjust_pump_count_by_load
        ((init_controller 0)\<lparr>engine_load := 10, fw_pump_count := 1, sw_pump_count := 1,
        fw_pump_freq := 61\<rparr>)) = 60"
  using adjust_pump_count_by_load_rule
    [of "(init_controller 0)\<lparr>engine_load := 10, fw_pump_count := 1, sw_pump_count := 1,
        fw_pump_freq := 61\<rparr>"]
  by (simp add: init_controller_fields)

section \<open>Properties of the update loop\<close>

subsection \<open>The test on \<open>T5\<close> and \<open>T4\<close> before the loop\<close>

text \<open>
  \<^verbatim>\<open>manual_update\<close>, and \<^verbatim>\<open>update_system\<close> of the earlier file, set \<open>T5\<close> to
  \<open>T4 - 2\<close> before the loop when the two are closer than 0.1.
\<close>

lemma manual_update_prepare_guard:
  "\<bar>T5 s - t4\<bar> < 0.1 \<Longrightarrow> T5 (manual_update_prepare t4 t1 dp1 load s) = t4 - 2"
  by (simp add: manual_update_prepare_def Let_def)

lemma manual_update_prepare_fields:
  "T1 (manual_update_prepare t4 t1 dp1 load s) = t1"
  "T4 (manual_update_prepare t4 t1 dp1 load s) = t4"
  "DP1 (manual_update_prepare t4 t1 dp1 load s) = dp1"
  "engine_load (manual_update_prepare t4 t1 dp1 load s) = load"
  "m_FW (manual_update_prepare t4 t1 dp1 load s) = m_FW s"
  "m_SW (manual_update_prepare t4 t1 dp1 load s) = m_SW s"
  "user_input_mode (manual_update_prepare t4 t1 dp1 load s) = user_input_mode s"
  "simulation_mode (manual_update_prepare t4 t1 dp1 load s) = simulation_mode s"
  "fw_pump_count (manual_update_prepare t4 t1 dp1 load s) = fw_pump_count s"
  "sw_pump_count (manual_update_prepare t4 t1 dp1 load s) = sw_pump_count s"
  by (simp_all add: manual_update_prepare_def Let_def)

lemma update_system_prepare_v0313_guard:
  "\<bar>T5 s - T4 (update_system_prepare_v0313 env s)\<bar> < 0.1 \<Longrightarrow>
     T5 (update_system_prepare_v0313 env s) = T4 (update_system_prepare_v0313 env s) - 2"
  by (auto simp add: update_system_prepare_v0313_def Let_def simulate_temperature_changes_keeps
      split: if_splits)

text \<open>
  \<^verbatim>\<open>update_system\<close> of \<^verbatim>\<open>new_AI_UI_0314.py\<close> has no such test: nothing before its
  loop assigns \<open>T5\<close>.
\<close>

lemma update_system_prepare_T5: "T5 (update_system_prepare env s) = T5 s"
  by (simp add: update_system_prepare_def simulate_temperature_changes_keeps)

lemma manual_update_finish_keeps:
  "T1 (manual_update_finish env s) = T1 s"
  "T2 (manual_update_finish env s) = T2 s"
  "T4 (manual_update_finish env s) = T4 s"
  "T5 (manual_update_finish env s) = T5 s"
  "DP1 (manual_update_finish env s) = DP1 s"
  "user_input_mode (manual_update_finish env s) = user_input_mode s"
  "simulation_mode (manual_update_finish env s) = simulation_mode s"
  "engine_load (manual_update_finish env s) = engine_load s"
  by (simp_all add: manual_update_finish_def Let_def check_alarm_conditions_keeps
      adjust_pump_count_by_load_keeps adjust_sw_pump_frequency_keeps
      adjust_fw_pump_frequency_keeps update_flow_rates_keeps)

lemma manual_update_T5:
  "T5 (fst (manual_update env t4 t1 dp1 load s)) = solver_T5 t1 t4 (m_FW s) (m_SW s)"
  by (simp add: manual_update_def Let_def manual_update_finish_keeps refinement_loop_cases
      calculate_t5_closed manual_update_prepare_fields)

lemma level_state_fields:
  "T4 level_state = 36" "T5 level_state = 36" "user_input_mode level_state"
proof -
  show "T4 level_state = 36"
    by (simp add: level_state_def manual_update_def Let_def manual_update_finish_keeps
        refinement_loop_keeps manual_update_prepare_fields)
  show "T5 level_state = 36"
    by (simp add: level_state_def manual_update_T5 solver_T5_def heat_exchange_T5_def)
  show "user_input_mode level_state"
    by (simp add: level_state_def manual_update_def Let_def manual_update_finish_keeps
        refinement_loop_keeps manual_update_prepare_fields)
qed

text \<open>
  Claim C6 says that both entry points force \<open>T5\<close> to \<open>T4 - 2\<close> before the loop when
  \<open>|T5 - T4| < 0.1\<close>. At the state left by \<^verbatim>\<open>manual_update(36, 36, 1.5, 75)\<close> in
  user-input mode, where \<open>T5 = T4 = 36\<close>, the periodic \<^verbatim>\<open>update_system\<close> enters its
  loop with \<open>T5 = 36\<close>, not \<open>T4 - 2 = 34\<close>.
\<close>

theorem update_system_prepare_no_guard:
  "\<bar>T5 level_state - T4 level_state\<bar> < 0.1
   \<and> T5 (update_system_prepare env0 level_state) = 36
   \<and> T4 (update_system_prepare env0 level_state) - 2 = 34"
  by (simp add: update_system_prepare_T5 level_state_fields update_system_prepare_def)

subsection \<open>What a call reads from outside\<close>

lemma adjust_fw_pump_frequency_clock:
  "adjust_fw_pump_frequency now s = adjust_fw_pump_frequency now' s"
  by (simp add: adjust_fw_pump_frequency_closed)

lemma adjust_sw_pump_frequency_clock:
  "adjust_sw_pump_frequency now s = adjust_sw_pump_frequency now' s"
  by (simp add: adjust_sw_pump_frequency_closed)

lemma manual_update_finish_env:
  "manual_update_finish env s = manual_update_finish env' s"
  unfolding manual_update_finish_def
  by (simp only: adjust_fw_pump_frequency_clock [of "time_fw env" _ "time_fw env'"]
      adjust_sw_pump_frequency_clock [of "time_sw env" _ "time_sw env'"])

lemma update_system_finish_env:
  "time_update env = time_update env' \<Longrightarrow>
     update_system_finish env s = update_system_finish env' s"
  unfolding update_system_finish_def
  by (simp only: adjust_fw_pump_frequency_clock [of "time_fw env" _ "time_fw env'"]
      adjust_sw_pump_frequency_clock [of "time_sw env" _ "time_sw env'"])

lemma update_system_prepare_simulation:
  "simulation_mode s \<and> \<not> user_input_mode s \<Longrightarrow>
     T1 (update_system_prepare env s) = max 0 (min 36 (T1 s + 0.05 * randn_t1 env))
     \<and> T4 (update_system_prepare env s) = max 36 (min 53 (T4 s + 0.05 * randn_t4 env))"
  by (simp add: update_system_prepare_def simulate_temperature_changes_closed)

lemma update_system_prepare_fixed:
  "\<not> (simulation_mode s \<and> \<not> user_input_mode s) \<Longrightarrow> update_system_prepare env s = s"
  by (auto simp add: update_system_prepare_def)

text \<open>
  Claim C10. Two calls of \<^verbatim>\<open>manual_update\<close> from the same state (the sea-water memory
  is part of it) with the same arguments give the same state and the same returned triple,
  whatever the clock and the random source deliver. The random perturbation of \<open>T1\<close> and
  \<open>T4\<close> is applied by \<^verbatim>\<open>update_system\<close> in simulation mode without user input, and
  in no other mode does a result of \<^verbatim>\<open>update_system\<close> depend on the random draws.
\<close>

theorem manual_update_deterministic:
  "manual_update env t4 t1 dp1 load s = manual_update env' t4 t1 dp1 load s
   \<and> (simulation_mode s \<and> \<not> user_input_mode s \<longrightarrow>
        T1 (update_system_prepare env s) = max 0 (min 36 (T1 s + 0.05 * randn_t1 env))
        \<and> T4 (update_system_prepare env s) = max 36 (min 53 (T4 s + 0.05 * randn_t4 env)))
   \<and> (\<not> (simulation_mode s \<and> \<not> user_input_mode s) \<longrightarrow>
        update_system (env\<lparr>randn_t1 := z1, randn_t4 := z4\<rparr>) s = update_system env s)"
proof -
  have m: "manual_update env t4 t1 dp1 load s = manual_update env' t4 t1 dp1 load s"
    unfolding manual_update_def
    by (simp only: manual_update_finish_env [of env _ env'])
  have u: "update_system (env\<lparr>randn_t1 := z1, randn_t4 := z4\<rparr>) s = update_system env s"
    if "\<not> (simulation_mode s \<and> \<not> user_input_mode s)"
  proof -
    have "update_system_finish (env\<lparr>randn_t1 := z1, randn_t4 := z4\<rparr>) = update_system_finish env"
      by (rule ext) (rule update_system_finish_env, simp)
    then show ?thesis
      using that by (simp add: update_system_def update_system_prepare_fixed)
  qed
  show ?thesis
    using m u update_system_prepare_simulation [of s env] by blast
qed

text \<open>
  The theorem at the constructed state (simulation mode), where a draw of 2 moves \<open>T1\<close>
  from 25 to 25.1, and at the state in user-input mode, where the draws change nothing.
\<close>

theorem manual_update_deterministic_witness:
  "manual_update env0 38 25 1.5 75 (init_controller 0)
     = manual_update (env0\<lparr>time_fw := 7, time_sw := 8, randn_t1 := 1, randn_t4 := 2\<rparr>) 38 25 1.5 75
         (init_controller 0)
   \<and> T1 (update_system_prepare (env0\<lparr>randn_t1 := 2\<rparr>) (init_controller 0)) = 25.1
   \<and> T1 (update_system_prepare env0 (init_controller 0)) = 25
   \<and> update_system (env0\<lparr>randn_t1 := 2, randn_t4 := 3\<rparr>) level_state = update_system env0 level_state"
proof -
  have a: "manual_update env0 38 25 1.5 75 (init_controller 0)
     = manual_update (env0\<lparr>time_fw := 7, time_sw := 8, randn_t1 := 1, randn_t4 := 2\<rparr>) 38 25 1.5 75
         (init_controller 0)"
    using manual_update_deterministic [where env = env0 and s = "init_controller 0"
        and env' = "env0\<lparr>time_fw := 7, time_sw := 8, randn_t1 := 1, randn_t4 := 2\<rparr>"]
    by simp
  have b: "T1 (update_system_prepare (env0\<lparr>randn_t1 := 2\<rparr>) (init_controller 0)) = 25.1"
    using manual_update_deterministic [where env = "env0\<lparr>randn_t1 := 2\<rparr>" and s = "init_controller 0"]
    by (simp add: init_controller_fields)
  have c: "T1 (update_system_prepare env0 (init_controller 0)) = 25"
    using manual_update_deterministic [where env = env0 and s = "init_controller 0"]
    by (simp add: init_controller_fields env0_def)
  have d: "update_system (env0\<lparr>randn_t1 := 2, randn_t4 := 3\<rparr>) level_state = update_system env0 level_state"
    using manual_update_deterministic [where env = env0 and s = level_state and ?z1.0 = 2 and ?z4.0 = 3]
    by (simp add: level_state_fields)
  show ?thesis using a b c d by simp
qed

subsection \<open>The history lists\<close>

lemma last_n_length: "length (last_n n xs) = min n (length xs)"
  by (simp add: last_n_def)

lemma last_n_short: "length xs \<le> n \<Longrightarrow> last_n n xs = xs"
  by (simp add: last_n_def)

lemma last_n_append: "last_n n (last_n n xs @ ys) = last_n n (xs @ ys)"
  by (cases "n \<le> length xs") (simp_all add: last_n_def add.commute)

lemma limit_data_size_time_data:
  "time_data (limit_data_size s) = last_n 1000 (time_data s)"
  by (simp add: limit_data_size_def Let_def last_n_short)

lemma append_data_log_data_log:
  "length (data_log (append_data_log t s)) = Suc (length (data_log s))"
  "butlast (data_log (append_data_log t s)) = data_log s"
  by (simp_all add: append_data_log_def Let_def)

lemma append_series_time_data:
  "time_data (append_series t s) = time_data s @ [t]"
  by (simp add: append_series_def)

lemma update_system_finish_data_log:
  "length (data_log (update_system_finish env s)) = Suc (length (data_log s))"
  "butlast (data_log (update_system_finish env s)) = data_log s"
  by (simp_all add: update_system_finish_def Let_def limit_data_size_keeps
      append_data_log_data_log append_series_keeps stage_keeps)

lemma update_system_finish_time_data:
  "time_data (update_system_finish env s) = last_n 1000 (time_data s @ [time_update env])"
  by (simp add: update_system_finish_def Let_def limit_data_size_time_data
      append_data_log_keeps append_series_time_data stage_keeps)

lemma update_system_prepare_keeps:
  "data_log (update_system_prepare env s) = data_log s"
  "time_data (update_system_prepare env s) = time_data s"
  "fw_pump_count (update_system_prepare env s) = fw_pump_count s"
  "sw_pump_count (update_system_prepare env s) = sw_pump_count s"
  by (simp_all add: update_system_prepare_def simulate_temperature_changes_keeps)

lemma update_system_data_log:
  "length (data_log (fst (update_system env s))) = Suc (length (data_log s))"
  "butlast (data_log (fst (update_system env s))) = data_log s"
  by (simp_all add: update_system_def Let_def update_system_finish_data_log
      refinement_loop_keeps update_system_prepare_keeps)

lemma update_system_time_data:
  "time_data (fst (update_system env s)) = last_n 1000 (time_data s @ [time_update env])"
  by (simp add: update_system_def Let_def update_system_finish_time_data
      refinement_loop_keeps update_system_prepare_keeps)

lemma update_system_data_log_append:
  "\<exists>p. data_log (fst (update_system env s)) = data_log s @ [p]"
proof -
  let ?xs = "data_log (fst (update_system env s))"
  have "?xs \<noteq> []" using update_system_data_log(1) [of env s] by auto
  then have "?xs = butlast ?xs @ [last ?xs]" by simp
  then show ?thesis by (metis update_system_data_log(2))
qed

text \<open>
  Every cycle appends one dictionary to \<^verbatim>\<open>data_log\<close> and nothing ever removes one.
\<close>

lemma run_cycles_data_log:
  "\<exists>ps. data_log (run_cycles envs s) = data_log s @ ps \<and> length ps = length envs"
proof (induction envs arbitrary: s)
  case Nil
  show ?case by simp
next
  case (Cons env envs)
  obtain p where p: "data_log (fst (update_system env s)) = data_log s @ [p]"
    using update_system_data_log_append by blast
  obtain ps where ps: "data_log (run_cycles envs (fst (update_system env s)))
      = data_log (fst (update_system env s)) @ ps" "length ps = length envs"
    using Cons.IH by blast
  have "data_log (run_cycles (env # envs) s) = data_log s @ (p # ps)"
    using p ps by simp
  moreover have "length (p # ps) = length (env # envs)" using ps by simp
  ultimately show ?case by blast
qed

lemma run_cycles_data_log_length:
  "length (data_log (run_cycles envs s)) = length (data_log s) + length envs"
  using run_cycles_data_log [of envs s] by auto

lemma run_cycles_data_log_prefix:
  "take (length (data_log s)) (data_log (run_cycles envs s)) = data_log s"
  using run_cycles_data_log [of envs s] by auto

text \<open>
  The series lists are limited: \<^verbatim>\<open>time_data\<close> holds the last 1000 clock readings.
\<close>

lemma run_cycles_time_data:
  "length (time_data s) \<le> 1000 \<Longrightarrow>
     time_data (run_cycles envs s) = last_n 1000 (time_data s @ map time_update envs)"
proof (induction envs arbitrary: s)
  case Nil
  then show ?case by (simp add: last_n_short)
next
  case (Cons env envs)
  have "length (time_data (fst (update_system env s))) \<le> 1000"
    by (simp add: update_system_time_data last_n_length)
  then have "time_data (run_cycles (env # envs) s)
      = last_n 1000 (last_n 1000 (time_data s @ [time_update env]) @ map time_update envs)"
    by (simp add: Cons.IH update_system_time_data)
  also have "\<dots> = last_n 1000 ((time_data s @ [time_update env]) @ map time_update envs)"
    by (rule last_n_append)
  finally show ?case by simp
qed

lemma run_cycles_time_data_length:
  "length (time_data s) \<le> 1000 \<Longrightarrow> length (time_data (run_cycles envs s)) \<le> 1000"
  by (simp add: run_cycles_time_data last_n_length)

lemma replicate_1001: "replicate 1001 x = x # replicate 1000 x"
proof -
  have "(1001::nat) = Suc 1000" by simp
  then show ?thesis by (simp only: replicate_Suc)
qed

text \<open>
  Claim C9 says that the history holds at most 1000 snapshots after every cycle and that
  the earliest snapshot is gone after 1001 of them. After 1001 cycles from the
  constructed state the series list \<^verbatim>\<open>time_data\<close> has 1000 entries, but
  \<^verbatim>\<open>data_log\<close> has 1001 and still begins with the snapshot of the first cycle.
\<close>

theorem data_log_not_limited:
  "length (data_log (run_cycles (replicate 1001 env0) (init_controller 0))) = 1001
   \<and> length (time_data (run_cycles (replicate 1001 env0) (init_controller 0))) = 1000
   \<and> take 1 (data_log (run_cycles (replicate 1001 env0) (init_controller 0)))
       = data_log (fst (update_system env0 (init_controller 0)))"
proof -
  let ?s1 = "fst (update_system env0 (init_controller 0))"
  have len: "length (data_log (run_cycles (replicate 1001 env0) (init_controller 0))) = 1001"
    by (simp add: run_cycles_data_log_length init_controller_fields)
  have "time_data (run_cycles (replicate 1001 env0) (init_controller 0))
      = last_n 1000 (time_data (init_controller 0) @ map time_update (replicate 1001 env0))"
    by (rule run_cycles_time_data) (simp add: init_controller_fields)
  then have series: "length (time_data (run_cycles (replicate 1001 env0) (init_controller 0))) = 1000"
    by (simp add: last_n_length init_controller_fields)
  have one: "length (data_log ?s1) = 1"
    by (simp add: update_system_data_log init_controller_fields)
  have "take (length (data_log ?s1)) (data_log (run_cycles (replicate 1000 env0) ?s1)) = data_log ?s1"
    by (rule run_cycles_data_log_prefix)
  then have first: "take 1 (data_log (run_cycles (replicate 1001 env0) (init_controller 0))) = data_log ?s1"
    by (simp add: one replicate_1001)
  show ?thesis using len series first by simp
qed

subsection \<open>The pump counts stay 1 or 2\<close>

text \<open>
  The counts are 2 in the constructed state and only \<^verbatim>\<open>adjust_pump_count_by_load\<close>
  assigns them, so they are 1 or 2 in every state a run reaches.
\<close>

lemma counts_ok_init: "counts_ok (init_controller now)"
  by (simp add: counts_ok_def init_controller_fields)

lemma counts_ok_adjust_pump_count_by_load:
  "counts_ok s \<Longrightarrow> counts_ok (adjust_pump_count_by_load s)"
  by (auto simp add: counts_ok_def adjust_pump_count_by_load_closed)

lemma counts_ok_cong:
  "fw_pump_count s' = fw_pump_count s \<Longrightarrow> sw_pump_count s' = sw_pump_count s \<Longrightarrow>
     counts_ok s' = counts_ok s"
  by (simp add: counts_ok_def)

lemma counts_ok_manual_update:
  assumes "counts_ok s"
  shows "counts_ok (fst (manual_update env t4 t1 dp1 load s))"
proof -
  let ?a = "refinement_loop 3 (manual_update_prepare t4 t1 dp1 load s)"
  let ?b = "adjust_sw_pump_frequency (time_sw env)
              (adjust_fw_pump_frequency (time_fw env) (update_flow_rates ?a))"
  have "counts_ok ?b = counts_ok s"
    by (rule counts_ok_cong)
      (simp_all add: adjust_sw_pump_frequency_keeps adjust_fw_pump_frequency_keeps
        update_flow_rates_keeps refinement_loop_keeps manual_update_prepare_fields)
  then have "counts_ok (adjust_pump_count_by_load ?b)"
    using assms counts_ok_adjust_pump_count_by_load by blast
  then have "counts_ok (check_alarm_conditions (adjust_pump_count_by_load ?b))"
    by (simp add: counts_ok_def check_alarm_conditions_keeps)
  then show ?thesis
    by (simp add: manual_update_def manual_update_finish_def Let_def)
qed

lemma counts_ok_update_system:
  assumes "counts_ok s"
  shows "counts_ok (fst (update_system env s))"
proof -
  let ?a = "refinement_loop 3 (update_system_prepare env s)"
  let ?b = "adjust_sw_pump_frequency (time_sw env)
              (adjust_fw_pump_frequency (time_fw env)
                (update_heat_exchanger_efficiency (update_flow_rates ?a)))"
  have "counts_ok ?b = counts_ok s"
    by (rule counts_ok_cong)
      (simp_all add: stage_keeps refinement_loop_keeps update_system_prepare_keeps)
  then have ok: "counts_ok (adjust_pump_count_by_load ?b)"
    using assms counts_ok_adjust_pump_count_by_load by blast
  have "fw_pump_count (fst (update_system env s)) = fw_pump_count (adjust_pump_count_by_load ?b)"
       "sw_pump_count (fst (update_system env s)) = sw_pump_count (adjust_pump_count_by_load ?b)"
    by (simp_all add: update_system_def update_system_finish_def Let_def limit_data_size_keeps
        append_data_log_keeps append_series_keeps check_alarm_conditions_keeps)
  then show ?thesis using ok by (simp add: counts_ok_def)
qed

lemma counts_ok_run_cycles: "counts_ok s \<Longrightarrow> counts_ok (run_cycles envs s)"
  by (induction envs arbitrary: s) (simp_all add: counts_ok_update_system)

subsection \<open>The lower limit is reached by manual updates\<close>

text \<open>The state and some attributes after \<^verbatim>\<open>manual_update\<close>, in terms of the state before.\<close>

lemma sw_first_call_values:
  "sw_pump_freq (fst (sw_first_call s)) = (case sw_mem s of None \<Rightarrow> 60 | Some m \<Rightarrow> sw_pump_freq s)"
  "snd (sw_first_call s) =
     (case sw_mem s of
        None \<Rightarrow> \<lparr>sw_base_freq = 60, prev_t5 = T5 s, t5_direction = None, last_adjustment = None\<rparr>
      | Some m \<Rightarrow> m)"
  by (simp_all add: sw_first_call_def Let_def split: option.splits)

lemma sw_next_cong:
  assumes "T5 a = T5 b" and "sw_pump_freq a = sw_pump_freq b" and "sw_mem a = sw_mem b"
  shows "sw_next_freq a = sw_next_freq b" and "sw_next_mem a = sw_next_mem b"
  using assms
  by (cases "sw_mem b"; simp add: sw_next_freq_def sw_next_mem_def sw_first_call_values)+

lemma refinement_loop_3: "refinement_loop 3 s = calculate_t5 s"
proof -
  have "(3::nat) = Suc 2" by simp
  then show ?thesis by (simp only: refinement_loop_Suc)
qed

text \<open>The value forced into \<open>T5\<close> before the loop is overwritten by the first solve.\<close>

lemma refinement_loop_forgets_T5:
  "refinement_loop 3 (s\<lparr>T5 := x\<rparr>) = refinement_loop 3 s"
  by (simp add: refinement_loop_3 calculate_t5_closed)

lemma manual_update_state:
  "fst (manual_update env t4 t1 dp1 load s)
     = check_alarm_conditions (adjust_pump_count_by_load
         (adjust_sw_pump_frequency (time_sw env)
            (adjust_fw_pump_frequency (time_fw env)
               (update_flow_rates (calculate_t5 (manual_update_prepare t4 t1 dp1 load s))))))"
  by (simp add: manual_update_def manual_update_finish_def Let_def refinement_loop_3)

lemma manual_update_flows:
  "m_FW (fst (manual_update env t4 t1 dp1 load s))
     = 1290 * (fw_pump_freq s / 60) * real_of_int (fw_pump_count s)"
  "m_SW (fst (manual_update env t4 t1 dp1 load s))
     = 1500 * (sw_pump_freq s / 60) * real_of_int (sw_pump_count s)"
  unfolding manual_update_state
  by (simp_all add: stage_keeps update_flow_rates_closed calculate_t5_keeps
      manual_update_prepare_def Let_def)

lemma manual_update_counts:
  "fw_pump_count (fst (manual_update env t4 t1 dp1 load s))
     = (if load < 10 then (if fw_pump_count s > 1 then 1 else fw_pump_count s)
        else (if fw_pump_count s < 2 then 2 else fw_pump_count s))"
  "sw_pump_count (fst (manual_update env t4 t1 dp1 load s))
     = (if load < 10 then (if sw_pump_count s > 1 then 1 else sw_pump_count s)
        else (if sw_pump_count s < 2 then 2 else sw_pump_count s))"
  unfolding manual_update_state
  by (simp_all add: stage_keeps adjust_pump_count_by_load_counts calculate_t5_keeps
      manual_update_prepare_fields)

lemma manual_update_fw_pump_freq:
  "fw_pump_freq (fst (manual_update env t4 t1 dp1 load s)) = fw_law (t4 - 36)"
  unfolding manual_update_state
  using fw_law_range [of "t4 - 36"]
  by (simp add: stage_keeps adjust_pump_count_by_load_freqs adjust_fw_pump_frequency_fw_law
      update_flow_rates_keeps calculate_t5_keeps manual_update_prepare_fields)

lemma manual_update_sw:
  "sw_pump_freq (fst (manual_update env t4 t1 dp1 load s))
     = sw_next_freq (s\<lparr>T5 := solver_T5 t1 t4 (m_FW s) (m_SW s)\<rparr>)"
  "sw_mem (fst (manual_update env t4 t1 dp1 load s))
     = Some (sw_next_mem (s\<lparr>T5 := solver_T5 t1 t4 (m_FW s) (m_SW s)\<rparr>))"
proof -
  let ?z = "adjust_fw_pump_frequency (time_fw env)
               (update_flow_rates (calculate_t5 (manual_update_prepare t4 t1 dp1 load s)))"
  let ?s = "s\<lparr>T5 := solver_T5 t1 t4 (m_FW s) (m_SW s)\<rparr>"
  have z: "T5 ?z = T5 ?s" "sw_pump_freq ?z = sw_pump_freq ?s" "sw_mem ?z = sw_mem ?s"
    by (simp_all add: stage_keeps calculate_t5_keeps calculate_t5_closed
        manual_update_prepare_def Let_def)
  have range: "sw_next_freq ?z \<le> 60" by (simp add: sw_next_freq_def)
  show "sw_pump_freq (fst (manual_update env t4 t1 dp1 load s)) = sw_next_freq ?s"
    unfolding manual_update_state
    using range sw_next_cong(1) [OF z]
    by (simp add: stage_keeps adjust_pump_count_by_load_freqs adjust_sw_pump_frequency_closed)
  show "sw_mem (fst (manual_update env t4 t1 dp1 load s)) = Some (sw_next_mem ?s)"
    unfolding manual_update_state
    using sw_next_cong(2) [OF z]
    by (simp add: stage_keeps adjust_sw_pump_frequency_closed)
qed

lemma solver_T5_cool:
  assumes "0 < mfw" and "0 < msw" and "mfw * 4200000 \<le> msw * 4100000"
  shows "solver_T5 25 36 mfw msw = 27.75"
  using assms by (simp add: solver_T5_def heat_exchange_T5_def min_def)

text \<open>
  With \<open>T4 = 36\<close> and \<open>T1 = 25\<close> the solver gives \<open>T5 = 27.75\<close>, below 34, so every
  update lowers the sea-water frequency by 2 Hz: \<open>60, 58, \<dots>, 36\<close>, and the thirteenth
  update commits 35 Hz, one hertz below the twelfth.
\<close>

lemma cool_update_first: "cool_inv 58 (cool_update (init_controller 0))"
proof -
  let ?s = "init_controller 0"
  have t5: "solver_T5 25 36 1935 3000 = 27.75"
    by (rule solver_T5_cool) simp_all
  have "sw_next_freq (?s\<lparr>T5 := 27.75\<rparr>) = 58"
    by (simp add: sw_next_freq_def sw_first_call_values init_controller_fields
        sw_decide_def sw_direction_changed_def sw_current_direction_keep)
  moreover have "sw_next_mem (?s\<lparr>T5 := 27.75\<rparr>)
      = \<lparr>sw_base_freq = 60, prev_t5 = 27.75, t5_direction = None, last_adjustment = Some Down\<rparr>"
    by (simp add: sw_next_mem_def sw_first_call_values init_controller_fields
        sw_decide_def sw_direction_changed_def sw_current_direction_keep)
  ultimately show ?thesis
    unfolding cool_inv_def cool_update_def
    by (simp add: manual_update_sw manual_update_flows manual_update_counts
        manual_update_fw_pump_freq t5 fw_law_def init_controller_fields)
qed

lemma cool_update_step:
  assumes inv: "cool_inv f s" and lo: "36 \<le> f" and hi: "f \<le> 60"
  shows "cool_inv (max 35 (f - 2)) (cool_update s)"
proof -
  let ?m = "\<lparr>sw_base_freq = 60, prev_t5 = 27.75, t5_direction = None,
             last_adjustment = Some Down\<rparr>"
  from inv have f: "sw_pump_freq s = f" and mem: "sw_mem s = Some ?m"
    and counts: "fw_pump_count s = 2" "sw_pump_count s = 2"
    and flows: "0 < m_FW s" "0 < m_SW s" "m_FW s * 4200000 \<le> m_SW s * 4100000"
    and fw: "fw_pump_freq s = 40"
    by (simp_all add: cool_inv_def)
  have t5: "solver_T5 25 36 (m_FW s) (m_SW s) = 27.75"
    using flows by (rule solver_T5_cool)
  have nf: "sw_next_freq (s\<lparr>T5 := 27.75\<rparr>) = max 35 (f - 2)"
    using hi by (simp add: sw_next_freq_def sw_first_call_values mem f
        sw_decide_def sw_direction_changed_def sw_current_direction_keep)
  have nm: "sw_next_mem (s\<lparr>T5 := 27.75\<rparr>) = ?m"
    by (simp add: sw_next_mem_def sw_first_call_values mem f
        sw_decide_def sw_direction_changed_def sw_current_direction_keep)
  show ?thesis
    unfolding cool_inv_def cool_update_def
    using lo hi nf nm
    by (simp add: manual_update_sw manual_update_flows manual_update_counts
        manual_update_fw_pump_freq t5 fw_law_def counts f fw)
qed

lemma cool_run_inv: "k \<le> 11 \<Longrightarrow> cool_inv (58 - 2 * real k) (cool_run (Suc k))"
proof (induction k)
  case 0
  show ?case using cool_update_first by simp
next
  case (Suc k)
  then have "cool_inv (58 - 2 * real k) (cool_run (Suc k))" by simp
  moreover have "36 \<le> 58 - 2 * real k" "58 - 2 * real k \<le> 60" using Suc.prems by simp_all
  ultimately have "cool_inv (max 35 (58 - 2 * real k - 2)) (cool_update (cool_run (Suc k)))"
    by (rule cool_update_step)
  moreover have "max 35 (58 - 2 * real k - 2) = 58 - 2 * real (Suc k)"
    using Suc.prems by simp
  ultimately show ?case by simp
qed

lemma cool_run_reaches_limit:
  "sw_pump_freq (cool_run 12) = 36 \<and> sw_pump_freq (cool_run 13) = 35"
proof -
  define s12 where "s12 = cool_run (Suc 11)"
  have n: "(12::nat) = Suc 11" "(13::nat) = Suc (Suc 11)" by simp_all
  have r12: "cool_run 12 = s12" and r13: "cool_run 13 = cool_update s12"
    by (simp_all only: n s12_def cool_run.simps)
  have a: "cool_inv 36 s12"
    unfolding s12_def using cool_run_inv [of 11] by simp
  then have "cool_inv (max 35 (36 - 2)) (cool_update s12)"
    by (rule cool_update_step) simp_all
  then have b: "sw_pump_freq (cool_update s12) = 35"
    by (simp add: cool_inv_def)
  show ?thesis
    unfolding r12 r13 using a b by (simp add: cool_inv_def)
qed

end
